theory Spec2Isabelle
  imports Complex_Main
begin

section \<open>Python strings\<close>

text \<open>
  A Python \<^verbatim>\<open>str\<close> is a sequence of Unicode code points, and \<^verbatim>\<open>len\<close> counts code
  points. A code point is a natural number here and a string a list of them, so that the
  arrow of the auto-translate label (U+2192) is one character, as it is for Python.
  \<open>ustr\<close> reads an ASCII literal.
\<close>

type_synonym pychar = nat
type_synonym pystr = "pychar list"

definition ustr :: "string \<Rightarrow> pystr" where
  "ustr cs = map of_char cs"

definition dquote :: pychar where "dquote = 34"
definition squote :: pychar where "squote = 39"
definition hyphen :: pychar where "hyphen = 45"
definition underscore :: pychar where "underscore = 95"
definition newline :: pychar where "newline = 10"
definition at_sign :: pychar where "at_sign = 64"

text \<open>
  \<^verbatim>\<open>str.isalpha\<close>, \<^verbatim>\<open>str.isspace\<close>, \<^verbatim>\<open>str.upper\<close> and \<^verbatim>\<open>str.lower\<close> follow the Unicode
  character database of the interpreter, which is no part of the plugin. On ASCII their
  values are written out below; beyond ASCII they are read from a table \<open>U\<close> that every
  function takes as a parameter, and every theorem holds for all tables.
\<close>

record unicode =
  uni_alpha :: "pychar \<Rightarrow> bool"
  uni_space :: "pychar \<Rightarrow> bool"
  uni_upper :: "pychar \<Rightarrow> pystr"
  uni_lower :: "pychar \<Rightarrow> pystr"

definition ascii_upper_letter :: "pychar \<Rightarrow> bool" where
  "ascii_upper_letter c = (65 \<le> c \<and> c \<le> 90)"

definition ascii_lower_letter :: "pychar \<Rightarrow> bool" where
  "ascii_lower_letter c = (97 \<le> c \<and> c \<le> 122)"

definition ascii_letter :: "pychar \<Rightarrow> bool" where
  "ascii_letter c = (ascii_upper_letter c \<or> ascii_lower_letter c)"

definition isalpha :: "unicode \<Rightarrow> pychar \<Rightarrow> bool" where
  "isalpha U c = (if c < 128 then ascii_letter c else uni_alpha U c)"

text \<open>ASCII whitespace of \<^verbatim>\<open>str.isspace\<close>: TAB, LF, VT, FF, CR, FS, GS, RS, US and space.\<close>

definition isspace :: "unicode \<Rightarrow> pychar \<Rightarrow> bool" where
  "isspace U c =
     (if c < 128 then (9 \<le> c \<and> c \<le> 13) \<or> (28 \<le> c \<and> c \<le> 32) else uni_space U c)"

definition upper_char :: "unicode \<Rightarrow> pychar \<Rightarrow> pystr" where
  "upper_char U c =
     (if c < 128 then (if ascii_lower_letter c then [c - 32] else [c]) else uni_upper U c)"

definition lower_char :: "unicode \<Rightarrow> pychar \<Rightarrow> pystr" where
  "lower_char U c =
     (if c < 128 then (if ascii_upper_letter c then [c + 32] else [c]) else uni_lower U c)"

definition upper :: "unicode \<Rightarrow> pystr \<Rightarrow> pystr" where
  "upper U s = concat (map (upper_char U) s)"

definition lower :: "unicode \<Rightarrow> pystr \<Rightarrow> pystr" where
  "lower U s = concat (map (lower_char U) s)"

text \<open>\<^verbatim>\<open>s.strip()\<close> removes the whitespace at both ends.\<close>

definition strip :: "unicode \<Rightarrow> pystr \<Rightarrow> pystr" where
  "strip U s = rev (dropWhile (isspace U) (rev (dropWhile (isspace U) s)))"

definition startswith :: "pystr \<Rightarrow> pystr \<Rightarrow> bool" where
  "startswith s p = (take (length p) s = p)"

definition endswith :: "pystr \<Rightarrow> pystr \<Rightarrow> bool" where
  "endswith s p = (length p \<le> length s \<and> drop (length s - length p) s = p)"

text \<open>A table with nothing beyond ASCII, for evaluating the functions on ASCII inputs.\<close>

definition ascii_only :: unicode where
  "ascii_only = \<lparr>uni_alpha = (\<lambda>c. False), uni_space = (\<lambda>c. False),
                  uni_upper = (\<lambda>c. [c]), uni_lower = (\<lambda>c. [c])\<rparr>"

section \<open>Language-token validator and quote normalizer\<close>

text \<open>
  \<^verbatim>\<open>_looks_like_lang\<close>: the \<^verbatim>\<open>for\<close> loop over the characters, leaving with False at the
  first character that is neither alphabetic nor a hyphen nor an underscore.
\<close>

fun lang_chars :: "unicode \<Rightarrow> pystr \<Rightarrow> bool" where
  "lang_chars U [] = True"
| "lang_chars U (ch # rest) =
     (if \<not> (isalpha U ch \<or> ch = hyphen \<or> ch = underscore) then False
      else lang_chars U rest)"

definition looks_like_lang :: "unicode \<Rightarrow> pystr \<Rightarrow> bool" where
  "looks_like_lang U token =
     (if token = [] \<or> length token > 10 then False else lang_chars U token)"

text \<open>
  \<^verbatim>\<open>_strip_wrapping_quotes\<close>: the loop over the two (opener, closer) pairs returns
  \<^verbatim>\<open>text[1:-1]\<close> at the first pair that wraps the text.
\<close>

definition quote_pairs :: "(pystr \<times> pystr) list" where
  "quote_pairs = [([dquote], [dquote]), ([squote], [squote])]"

fun unwrap_first :: "(pystr \<times> pystr) list \<Rightarrow> pystr \<Rightarrow> pystr option" where
  "unwrap_first [] text = None"
| "unwrap_first ((opener, closer) # pairs) text =
     (if startswith text opener \<and> endswith text closer then Some (butlast (tl text))
      else unwrap_first pairs text)"

definition strip_wrapping_quotes :: "pystr \<Rightarrow> pystr" where
  "strip_wrapping_quotes text =
     (if length text \<ge> 2
      then (case unwrap_first quote_pairs text of Some inner \<Rightarrow> inner | None \<Rightarrow> text)
      else text)"

text \<open>A text is wrapped when it has two characters or more and begins and ends with the
  same kind of quote.\<close>

definition wrapped :: "pystr \<Rightarrow> bool" where
  "wrapped text =
     (length text \<ge> 2 \<and>
      ((hd text = dquote \<and> last text = dquote) \<or> (hd text = squote \<and> last text = squote)))"

section \<open>Python values, the provider's payload and the settings\<close>

text \<open>
  What \<^verbatim>\<open>json.loads\<close> returns: \<^verbatim>\<open>None\<close>, a bool, a number, a string, a list or a dict with
  string keys (its items, each key once). The translated text and the detected language
  that the client hands on are such values.
\<close>

datatype pyval =
    PNone
  | PBool bool
  | PNum real
  | PStr pystr
  | PList "pyval list"
  | PDict "(pystr \<times> pyval) list"

datatype py_error = AttributeError | TypeError | KeyError | IndexError

text \<open>Truth value of a Python value, as \<^verbatim>\<open>not x\<close> and \<^verbatim>\<open>x or y\<close> test it.\<close>

fun truthy :: "pyval \<Rightarrow> bool" where
  "truthy PNone = False"
| "truthy (PBool b) = b"
| "truthy (PNum x) = (x \<noteq> 0)"
| "truthy (PStr s) = (s \<noteq> [])"
| "truthy (PList xs) = (xs \<noteq> [])"
| "truthy (PDict kvs) = (kvs \<noteq> [])"

text \<open>\<^verbatim>\<open>needle in haystack\<close> on strings.\<close>

fun contains :: "pystr \<Rightarrow> pystr \<Rightarrow> bool" where
  "contains [] needle = (needle = [])"
| "contains (c # cs) needle = (startswith (c # cs) needle \<or> contains cs needle)"

text \<open>\<^verbatim>\<open>v.get(key, default)\<close>: only a dict has the method.\<close>

fun py_get :: "pyval \<Rightarrow> pystr \<Rightarrow> pyval \<Rightarrow> py_error + pyval" where
  "py_get (PDict kvs) key dflt =
     Inr (case map_of kvs key of Some v \<Rightarrow> v | None \<Rightarrow> dflt)"
| "py_get v key dflt = Inl AttributeError"

text \<open>\<^verbatim>\<open>key in v\<close> for a string key: a key of a dict, a substring of a string, an element
  of a list; the other values are not containers.\<close>

fun py_in :: "pystr \<Rightarrow> pyval \<Rightarrow> py_error + bool" where
  "py_in key (PDict kvs) = Inr (map_of kvs key \<noteq> None)"
| "py_in key (PStr s) = Inr (contains s key)"
| "py_in key (PList xs) = Inr (PStr key \<in> set xs)"
| "py_in key v = Inl TypeError"

text \<open>\<^verbatim>\<open>v[0]\<close>: the first element of a list, the first character of a string; a dict with
  string keys has no key 0; the other values cannot be subscripted.\<close>

fun py_first :: "pyval \<Rightarrow> py_error + pyval" where
  "py_first (PList []) = Inl IndexError"
| "py_first (PList (x # xs)) = Inr x"
| "py_first (PStr []) = Inl IndexError"
| "py_first (PStr (c # cs)) = Inr (PStr [c])"
| "py_first (PDict kvs) = Inl KeyError"
| "py_first v = Inl TypeError"

text \<open>A string method (\<^verbatim>\<open>strip\<close>, \<^verbatim>\<open>upper\<close>, \<^verbatim>\<open>lower\<close>) called on a value: only a string
  has it.\<close>

fun as_str :: "pyval \<Rightarrow> py_error + pystr" where
  "as_str (PStr s) = Inr s"
| "as_str v = Inl AttributeError"

record settings =
  api_key :: pystr
  target_lang :: pystr
  preserve_formatting :: bool
  auto_translate_incoming :: bool
  auto_incoming_target_lang :: pystr

text \<open>The form fields of the POST request; \<open>req_preserve_formatting\<close> says whether the
  field \<^verbatim>\<open>preserve_formatting=1\<close> is sent.\<close>

record request =
  req_auth_key :: pystr
  req_text :: pystr
  req_target_lang :: pystr
  req_preserve_formatting :: bool

text \<open>
  What \<^verbatim>\<open>urlopen\<close>, reading the body and \<^verbatim>\<open>json.loads\<close> give for a request: an exception
  of the transport (with its text), a body that is no JSON, or the parsed payload. The
  network is the parameter \<open>respond\<close> of the client.
\<close>

datatype http_outcome =
    TransportFailure pystr
  | MalformedBody
  | Parsed pyval

section \<open>Effects, callbacks and threads\<close>

text \<open>The conversation an outgoing line belongs to: \<^verbatim>\<open>("chatroom", room)\<close> or
  \<^verbatim>\<open>("private", user)\<close>.\<close>

datatype chat_context = Chatroom pystr | Private pystr

text \<open>
  The \<^verbatim>\<open>on_success\<close> closures of the plugin, each with the variables it captures:
  that of \<^verbatim>\<open>incoming_public_chat_notification\<close> (room, user, line, target), that of
  \<^verbatim>\<open>incoming_private_chat_notification\<close> (user, line, target), and the three of
  \<^verbatim>\<open>_handle_outgoing_shortcut\<close>: sending (context), echoing the last message of a room
  (room, target, last user) and of a private chat (user, target, last user).
\<close>

datatype callback =
    IncomingPublicEcho pystr pystr pystr pystr
  | IncomingPrivateEcho pystr pystr pystr
  | ShortcutSend chat_context
  | ShortcutEchoPublic pystr pystr pystr
  | ShortcutEchoPrivate pystr pystr pystr

text \<open>The arguments of one \<^verbatim>\<open>_async_translate\<close> call, which the worker thread captures.\<close>

record task =
  task_text :: pystr
  task_target_lang :: pystr
  task_on_success :: callback
  task_silent :: bool

text \<open>The closure \<^verbatim>\<open>deliver\<close>: the worker's result with \<^verbatim>\<open>silent\<close> and \<^verbatim>\<open>on_success\<close>.\<close>

record delivery =
  del_result :: "pyval \<times> pyval"
  del_silent :: bool
  del_on_success :: callback

text \<open>
  What a function does to the world, in order: local output, sending to a room or a
  peer, echoing locally in a room or a private chat, one HTTP request, starting a
  thread (\<^verbatim>\<open>Thread(target=worker, daemon=True).start()\<close>) and
  \<^verbatim>\<open>events.invoke_main_thread(deliver)\<close>.
\<close>

datatype effect =
    Output pystr
  | SendPublic pystr pystr
  | SendPrivate pystr pystr
  | EchoPublic pystr pystr
  | EchoPrivate pystr pystr
  | NetCall request
  | StartThread task
  | InvokeMainThread delivery

section \<open>Translation client\<close>

definition arrow :: pychar where "arrow = 8594"

definition key_not_set_message :: pystr where
  "key_not_set_message =
     ustr ''DeepL API key not set. Open Preferences '' @ [arrow] @ ustr '' Plugins '' @ [arrow]
       @ ustr '' DeepL Translate to configure.''"

text \<open>\<^verbatim>\<open>target_lang or self.settings.get("target_lang") or "EN-US"\<close>: \<^verbatim>\<open>None\<close> and the empty
  string are false.\<close>

definition effective_target :: "pystr option \<Rightarrow> settings \<Rightarrow> pystr" where
  "effective_target lang s =
     (case lang of
        Some t \<Rightarrow> (if t \<noteq> [] then t
                   else if target_lang s \<noteq> [] then target_lang s else ustr ''EN-US'')
      | None \<Rightarrow> (if target_lang s \<noteq> [] then target_lang s else ustr ''EN-US''))"

definition build_request :: "settings \<Rightarrow> pystr \<Rightarrow> pystr option \<Rightarrow> pystr \<Rightarrow> request" where
  "build_request s text lang key =
     \<lparr>req_auth_key = key, req_text = text, req_target_lang = effective_target lang s,
      req_preserve_formatting = preserve_formatting s\<rparr>"

text \<open>
  \<^verbatim>\<open>"message" in payload and "error" in payload.get("message", "").lower()\<close>: the message
  when the test holds, \<^verbatim>\<open>None\<close> when it does not, the exception when the payload or the
  message has the wrong type.
\<close>

definition provider_error :: "unicode \<Rightarrow> pyval \<Rightarrow> py_error + pystr option" where
  "provider_error U payload =
     (case py_in (ustr ''message'') payload of
        Inl e \<Rightarrow> Inl e
      | Inr False \<Rightarrow> Inr None
      | Inr True \<Rightarrow>
          (case py_get payload (ustr ''message'') (PStr []) of
             Inl e \<Rightarrow> Inl e
           | Inr m \<Rightarrow>
               (case as_str m of
                  Inl e \<Rightarrow> Inl e
                | Inr ms \<Rightarrow>
                    (if contains (lower U ms) (ustr ''error'') then Inr (Some ms)
                     else Inr None))))"

text \<open>Lines 341 to 350 of \<^verbatim>\<open>_translate_via_deepl\<close>: what is reported and returned for a
  parsed payload.\<close>

definition via_deepl_payload :: "unicode \<Rightarrow> pyval \<Rightarrow> effect list \<times> (py_error + pyval)" where
  "via_deepl_payload U payload =
     (case provider_error U payload of
        Inl e \<Rightarrow> ([], Inl e)
      | Inr (Some ms) \<Rightarrow> ([Output (ustr ''DeepL error: '' @ ms)], Inr PNone)
      | Inr None \<Rightarrow>
          (case py_get payload (ustr ''translations'') PNone of
             Inl e \<Rightarrow> ([], Inl e)
           | Inr translations \<Rightarrow>
               (if \<not> truthy translations
                then ([Output (ustr ''DeepL returned no translations'')], Inr PNone)
                else (case py_first translations of
                        Inl e \<Rightarrow> ([], Inl e)
                      | Inr first \<Rightarrow> ([], py_get first (ustr ''text'') (PStr []))))))"

text \<open>\<^verbatim>\<open>_translate_via_deepl\<close>: the effects in order, and the returned value or the
  exception that leaves the function.\<close>

definition translate_via_deepl ::
  "unicode \<Rightarrow> (request \<Rightarrow> http_outcome) \<Rightarrow> settings \<Rightarrow> pystr \<Rightarrow> pystr option
     \<Rightarrow> effect list \<times> (py_error + pyval)" where
  "translate_via_deepl U respond s text lang =
     (let key = strip U (api_key s) in
      if key = [] then ([Output key_not_set_message], Inr PNone)
      else
        (let req = build_request s text lang key in
         case respond req of
           TransportFailure err \<Rightarrow>
             ([NetCall req, Output (ustr ''DeepL request failed: '' @ err)], Inr PNone)
         | MalformedBody \<Rightarrow>
             ([NetCall req, Output (ustr ''Failed to parse DeepL response'')], Inr PNone)
         | Parsed payload \<Rightarrow>
             (NetCall req # fst (via_deepl_payload U payload),
              snd (via_deepl_payload U payload))))"

text \<open>Lines 381 to 386 of \<^verbatim>\<open>_translate_and_detect\<close>.\<close>

definition detect_payload :: "pyval \<Rightarrow> py_error + (pyval \<times> pyval)" where
  "detect_payload payload =
     (case py_get payload (ustr ''translations'') PNone of
        Inl e \<Rightarrow> Inl e
      | Inr translations \<Rightarrow>
          (if \<not> truthy translations then Inr (PNone, PNone)
           else (case py_first translations of
                   Inl e \<Rightarrow> Inl e
                 | Inr first \<Rightarrow>
                     (case py_get first (ustr ''text'') (PStr []) of
                        Inl e \<Rightarrow> Inl e
                      | Inr t \<Rightarrow>
                          (case py_get first (ustr ''detected_source_language'') PNone of
                             Inl e \<Rightarrow> Inl e
                           | Inr d \<Rightarrow> Inr (t, d))))))"

definition translate_and_detect ::
  "unicode \<Rightarrow> (request \<Rightarrow> http_outcome) \<Rightarrow> settings \<Rightarrow> pystr \<Rightarrow> pystr option
     \<Rightarrow> effect list \<times> (py_error + (pyval \<times> pyval))" where
  "translate_and_detect U respond s text lang =
     (let key = strip U (api_key s) in
      if key = [] then ([], Inr (PNone, PNone))
      else
        (let req = build_request s text lang key in
         case respond req of
           TransportFailure err \<Rightarrow> ([NetCall req], Inr (PNone, PNone))
         | MalformedBody \<Rightarrow> ([NetCall req], Inr (PNone, PNone))
         | Parsed payload \<Rightarrow> ([NetCall req], detect_payload payload)))"

section \<open>Async dispatch layer\<close>

text \<open>\<^verbatim>\<open>_async_translate\<close> starts one thread and does nothing else in the caller.\<close>

definition async_translate :: "pystr \<Rightarrow> pystr \<Rightarrow> callback \<Rightarrow> bool \<Rightarrow> effect list" where
  "async_translate text lang cb silent =
     [StartThread \<lparr>task_text = text, task_target_lang = lang, task_on_success = cb,
                   task_silent = silent\<rparr>]"

text \<open>
  \<^verbatim>\<open>worker\<close>, the body of the thread: the client call with the settings the thread reads,
  then \<^verbatim>\<open>events.invoke_main_thread(deliver)\<close>. An exception of the client ends the thread
  before anything is scheduled.
\<close>

definition worker :: "unicode \<Rightarrow> (request \<Rightarrow> http_outcome) \<Rightarrow> settings \<Rightarrow> task \<Rightarrow> effect list" where
  "worker U respond s t =
     (case translate_and_detect U respond s (task_text t) (Some (task_target_lang t)) of
        (effs, Inl e) \<Rightarrow> effs
      | (effs, Inr result) \<Rightarrow>
          effs @ [InvokeMainThread \<lparr>del_result = result, del_silent = task_silent t,
                                    del_on_success = task_on_success t\<rparr>])"

text \<open>\<^verbatim>\<open>deliver\<close>: the call of \<^verbatim>\<open>on_success\<close> it makes, with its argument, if it makes one.\<close>

definition deliver :: "delivery \<Rightarrow> (callback \<times> (pyval \<times> pyval)) option" where
  "deliver d =
     (case del_result d of
        (translated, detected) \<Rightarrow>
          (if translated = PNone \<and> \<not> del_silent d then None
           else Some (del_on_success d, (translated, detected))))"

section \<open>The completion callbacks\<close>

text \<open>\<^verbatim>\<open>detected and detected.upper().startswith("EN")\<close>, as a truth value.\<close>

definition english_family :: "unicode \<Rightarrow> pyval \<Rightarrow> py_error + bool" where
  "english_family U detected =
     (if \<not> truthy detected then Inr False
      else (case as_str detected of
              Inl e \<Rightarrow> Inl e
            | Inr d \<Rightarrow> Inr (startswith (upper U d) (ustr ''EN''))))"

text \<open>\<^verbatim>\<open>(detected or '?').upper()\<close>.\<close>

definition detected_label :: "unicode \<Rightarrow> pyval \<Rightarrow> py_error + pystr" where
  "detected_label U detected =
     (if truthy detected
      then (case as_str detected of Inl e \<Rightarrow> Inl e | Inr d \<Rightarrow> Inr (upper U d))
      else Inr (upper U (ustr ''?'')))"

text \<open>The label \<^verbatim>\<open>[DETECTED-arrow-TARGET] user: \<close> of the auto-translate echo.\<close>

definition incoming_label :: "pystr \<Rightarrow> pystr \<Rightarrow> pystr \<Rightarrow> pystr" where
  "incoming_label dl target user =
     ustr ''['' @ dl @ [arrow] @ target @ ustr ''] '' @ user @ ustr '': ''"

text \<open>The label \<^verbatim>\<open>[TARGET] last_user: \<close> of the shortcut echo.\<close>

definition shortcut_label :: "pystr \<Rightarrow> pystr \<Rightarrow> pystr" where
  "shortcut_label target last_user = ustr ''['' @ target @ ustr ''] '' @ last_user @ ustr '': ''"

text \<open>
  The body shared by the two \<^verbatim>\<open>on_success\<close> closures of the incoming notifications;
  \<open>echo\<close> is \<^verbatim>\<open>echo_public(room, _)\<close> or \<^verbatim>\<open>echo_private(user, _)\<close>.
\<close>

definition incoming_on_success ::
  "unicode \<Rightarrow> (pystr \<Rightarrow> effect) \<Rightarrow> pystr \<Rightarrow> pystr \<Rightarrow> pystr \<Rightarrow> pyval \<times> pyval
     \<Rightarrow> effect list \<times> (py_error + unit)" where
  "incoming_on_success U echo user line target result =
     (case result of
        (translated, detected) \<Rightarrow>
          (if \<not> truthy translated then ([], Inr ())
           else
             (case english_family U detected of
                Inl e \<Rightarrow> ([], Inl e)
              | Inr True \<Rightarrow> ([], Inr ())
              | Inr False \<Rightarrow>
                  (case as_str translated of
                     Inl e \<Rightarrow> ([], Inl e)
                   | Inr t \<Rightarrow>
                       (if strip U t = strip U line then ([], Inr ())
                        else
                          (case detected_label U detected of
                             Inl e \<Rightarrow> ([], Inl e)
                           | Inr dl \<Rightarrow>
                               ([echo (incoming_label dl target user @ t)], Inr ())))))))"

text \<open>The body shared by the three \<^verbatim>\<open>on_success\<close> closures of the shortcut; \<open>out\<close> is
  what is done with the cleaned translation.\<close>

definition shortcut_on_success ::
  "unicode \<Rightarrow> (pystr \<Rightarrow> effect) \<Rightarrow> pyval \<times> pyval \<Rightarrow> effect list \<times> (py_error + unit)" where
  "shortcut_on_success U out result =
     (case result of
        (translated, detected) \<Rightarrow>
          (if \<not> truthy translated then ([], Inr ())
           else
             (case as_str translated of
                Inl e \<Rightarrow> ([], Inl e)
              | Inr t \<Rightarrow> ([out (strip_wrapping_quotes (strip U t))], Inr ()))))"

fun on_success :: "unicode \<Rightarrow> callback \<Rightarrow> pyval \<times> pyval \<Rightarrow> effect list \<times> (py_error + unit)" where
  "on_success U (IncomingPublicEcho room user line target) result =
     incoming_on_success U (EchoPublic room) user line target result"
| "on_success U (IncomingPrivateEcho user line target) result =
     incoming_on_success U (EchoPrivate user) user line target result"
| "on_success U (ShortcutSend (Chatroom room)) result =
     shortcut_on_success U (SendPublic room) result"
| "on_success U (ShortcutSend (Private user)) result =
     shortcut_on_success U (SendPrivate user) result"
| "on_success U (ShortcutEchoPublic room target last_user) result =
     shortcut_on_success U (\<lambda>t. EchoPublic room (shortcut_label target last_user @ t)) result"
| "on_success U (ShortcutEchoPrivate user target last_user) result =
     shortcut_on_success U (\<lambda>t. EchoPrivate user (shortcut_label target last_user @ t)) result"

section \<open>The plugin and its event handlers\<close>

text \<open>
  The plugin object: its settings and the two dicts of last messages (room to
  (user, line), peer to (user, line)). \<open>login_username\<close> is the host's
  \<^verbatim>\<open>core.users.login_username\<close>, which is \<^verbatim>\<open>None\<close> while nobody is logged in.
\<close>

record plugin =
  settings :: settings
  last_public_message :: "pystr \<rightharpoonup> (pystr \<times> pystr)"
  last_private_message :: "pystr \<rightharpoonup> (pystr \<times> pystr)"
  login_username :: "pystr option"

text \<open>\<^verbatim>\<open>self.settings.get("auto_incoming_target_lang") or "EN-GB"\<close>.\<close>

definition incoming_target :: "settings \<Rightarrow> pystr" where
  "incoming_target s =
     (if auto_incoming_target_lang s \<noteq> [] then auto_incoming_target_lang s else ustr ''EN-GB'')"

definition incoming_public_chat_notification ::
  "plugin \<Rightarrow> pystr \<Rightarrow> pystr \<Rightarrow> pystr \<Rightarrow> plugin \<times> effect list" where
  "incoming_public_chat_notification p room user line =
     (let p' = (if Some user \<noteq> login_username p
                then p\<lparr>last_public_message := (last_public_message p)(room \<mapsto> (user, line))\<rparr>
                else p)
      in if \<not> auto_translate_incoming (settings p') then (p', [])
         else if Some user = login_username p' then (p', [])
         else (p', async_translate line (incoming_target (settings p'))
                     (IncomingPublicEcho room user line (incoming_target (settings p'))) True))"

definition incoming_private_chat_notification ::
  "plugin \<Rightarrow> pystr \<Rightarrow> pystr \<Rightarrow> plugin \<times> effect list" where
  "incoming_private_chat_notification p user line =
     (let p' = (if Some user \<noteq> login_username p
                then p\<lparr>last_private_message := (last_private_message p)(user \<mapsto> (user, line))\<rparr>
                else p)
      in if \<not> auto_translate_incoming (settings p') then (p', [])
         else if Some user = login_username p' then (p', [])
         else (p', async_translate line (incoming_target (settings p'))
                     (IncomingPrivateEcho user line (incoming_target (settings p'))) True))"

section \<open>The inline shortcut\<close>

text \<open>The characters of \<^verbatim>\<open>[A-Za-z\-_]\<close>.\<close>

definition lang_tail_char :: "pychar \<Rightarrow> bool" where
  "lang_tail_char c = (ascii_letter c \<or> c = hyphen \<or> c = underscore)"

text \<open>
  \<^verbatim>\<open>re.match(r"^\s*@([A-Za-z][A-Za-z\-_]{1,9})\s*(.*)$", line)\<close>, giving the two groups of
  the match the engine finds. Every quantifier is greedy: the leading whitespace is
  skipped, \<^verbatim>\<open>@\<close> and an ASCII letter follow, then up to nine more token characters (one
  at least), then whitespace, then \<^verbatim>\<open>.*\<close> runs to the first newline, and \<^verbatim>\<open>$\<close> holds at
  the end of the line or before a newline that ends it. Giving back characters never
  helps: a shorter token or less whitespace leaves the same first newline in the way.
  Lemmas \<open>shortcut_match_sound\<close> and \<open>shortcut_match_complete\<close> below relate the function
  to the pattern read as a set of splits of the line.
\<close>

definition shortcut_match :: "unicode \<Rightarrow> pystr \<Rightarrow> (pystr \<times> pystr) option" where
  "shortcut_match U line =
     (case dropWhile (isspace U) line of
        c0 # c1 # cs \<Rightarrow>
          (if c0 = at_sign \<and> ascii_letter c1 then
             (let further = takeWhile lang_tail_char (take 9 cs) in
              if further = [] then None
              else
                (let after = dropWhile (isspace U) (drop (length further) cs);
                     body = takeWhile (\<lambda>c. c \<noteq> newline) after;
                     left = dropWhile (\<lambda>c. c \<noteq> newline) after
                 in if left = [] \<or> left = [newline] then Some (c1 # further, body) else None))
           else None)
      | _ \<Rightarrow> None)"

text \<open>
  The pattern as a relation: \<open>line\<close> splits into whitespace, \<^verbatim>\<open>@\<close>, a token, whitespace,
  a body without newline and an end that is empty or one newline. These are all the
  ways in which the pattern can match, whatever the engine's order of trying them.
\<close>

definition shortcut_pattern :: "unicode \<Rightarrow> pystr \<Rightarrow> pystr \<Rightarrow> pystr \<Rightarrow> bool" where
  "shortcut_pattern U line token body =
     (\<exists>ws1 ws2 fin. line = ws1 @ [at_sign] @ token @ ws2 @ body @ fin \<and>
        list_all (isspace U) ws1 \<and>
        token \<noteq> [] \<and> ascii_letter (hd token) \<and> list_all lang_tail_char (tl token) \<and>
        2 \<le> length token \<and> length token \<le> 10 \<and>
        list_all (isspace U) ws2 \<and>
        newline \<notin> set body \<and> (fin = [] \<or> fin = [newline]))"

definition no_recent_message :: pystr where
  "no_recent_message = ustr ''No recent message to translate''"

text \<open>\<^verbatim>\<open>_handle_outgoing_shortcut\<close>: the effects and whether the line was handled.\<close>

definition handle_outgoing_shortcut ::
  "unicode \<Rightarrow> plugin \<Rightarrow> pystr \<Rightarrow> chat_context \<Rightarrow> effect list \<times> bool" where
  "handle_outgoing_shortcut U p line context =
     (case shortcut_match U line of
        None \<Rightarrow> ([], False)
      | Some (target, group2) \<Rightarrow>
          (let rest = strip U group2 in
           if \<not> looks_like_lang U target then ([], False)
           else if rest \<noteq> [] then
             (async_translate rest target (ShortcutSend context) False, True)
           else
             (case context of
                Chatroom room \<Rightarrow>
                  (case last_public_message p room of
                     None \<Rightarrow> ([Output no_recent_message], True)
                   | Some (last_user, last_text) \<Rightarrow>
                       (async_translate last_text target
                          (ShortcutEchoPublic room target last_user) False, True))
              | Private user \<Rightarrow>
                  (case last_private_message p user of
                     None \<Rightarrow> ([Output no_recent_message], True)
                   | Some (last_user, last_text) \<Rightarrow>
                       (async_translate last_text target
                          (ShortcutEchoPrivate user target last_user) False, True)))))"

text \<open>What an outgoing-event handler returns to the host: \<^verbatim>\<open>returncode["zap"]\<close>, which
  stops the line from being sent, or \<^verbatim>\<open>None\<close>.\<close>

datatype returncode = Zap

definition outgoing_public_chat_event ::
  "unicode \<Rightarrow> plugin \<Rightarrow> pystr \<Rightarrow> pystr \<Rightarrow> effect list \<times> returncode option" where
  "outgoing_public_chat_event U p room line =
     (case handle_outgoing_shortcut U p line (Chatroom room) of
        (effs, handled) \<Rightarrow> (effs, if handled then Some Zap else None))"

definition outgoing_private_chat_event ::
  "unicode \<Rightarrow> plugin \<Rightarrow> pystr \<Rightarrow> pystr \<Rightarrow> effect list \<times> returncode option" where
  "outgoing_private_chat_event U p user line =
     (case handle_outgoing_shortcut U p line (Private user) of
        (effs, handled) \<Rightarrow> (effs, if handled then Some Zap else None))"

section \<open>The explicit command\<close>














section \<open>Threads\<close>

text \<open>
  Where things happen. A handler is called by the host on the main thread, so what it
  does itself happens there; the body of a started thread runs on a worker thread; a
  closure given to \<^verbatim>\<open>events.invoke_main_thread\<close> runs on the main thread. An occurrence
  is an effect, or the call of an \<^verbatim>\<open>on_success\<close> closure with its argument.
\<close>

datatype thread = MainThread | WorkerThread

datatype occurrence = Did effect | Called callback "pyval \<times> pyval"

definition delivery_events :: "unicode \<Rightarrow> delivery \<Rightarrow> (thread \<times> occurrence) list" where
  "delivery_events U d =
     (case deliver d of
        None \<Rightarrow> []
      | Some (cb, result) \<Rightarrow>
          (MainThread, Called cb result)
            # map (\<lambda>e. (MainThread, Did e)) (fst (on_success U cb result)))"

fun scheduled :: "unicode \<Rightarrow> effect \<Rightarrow> (thread \<times> occurrence) list" where
  "scheduled U (InvokeMainThread d) = delivery_events U d"
| "scheduled U e = []"

text \<open>\<open>s\<close> is the settings as the worker thread reads them when it runs.\<close>

definition thread_events ::
  "unicode \<Rightarrow> (request \<Rightarrow> http_outcome) \<Rightarrow> settings \<Rightarrow> task \<Rightarrow> (thread \<times> occurrence) list" where
  "thread_events U respond s t =
     concat (map (\<lambda>e. (WorkerThread, Did e) # scheduled U e) (worker U respond s t))"

fun started ::
  "unicode \<Rightarrow> (request \<Rightarrow> http_outcome) \<Rightarrow> settings \<Rightarrow> effect \<Rightarrow> (thread \<times> occurrence) list" where
  "started U respond s (StartThread t) = thread_events U respond s t"
| "started U respond s e = []"

text \<open>Everything that follows from the effects of a handler.\<close>

definition handler_events ::
  "unicode \<Rightarrow> (request \<Rightarrow> http_outcome) \<Rightarrow> settings \<Rightarrow> effect list \<Rightarrow> (thread \<times> occurrence) list" where
  "handler_events U respond s effs =
     concat (map (\<lambda>e. (MainThread, Did e) # started U respond s e) effs)"

fun is_net_call :: "effect \<Rightarrow> bool" where
  "is_net_call (NetCall req) = True"
| "is_net_call e = False"

fun is_transmission :: "effect \<Rightarrow> bool" where
  "is_transmission (SendPublic room text) = True"
| "is_transmission (SendPrivate user text) = True"
| "is_transmission e = False"



section \<open>Initial state and examples\<close>

text \<open>The settings and the empty dicts that \<^verbatim>\<open>__init__\<close> sets up.\<close>

definition default_settings :: settings where
  "default_settings =
     \<lparr>api_key = ustr '''', target_lang = ustr ''DE'', preserve_formatting = True,
      auto_translate_incoming = True, auto_incoming_target_lang = ustr ''EN-GB''\<rparr>"

definition initial_plugin :: "pystr option \<Rightarrow> plugin" where
  "initial_plugin login =
     \<lparr>settings = default_settings, last_public_message = Map.empty,
      last_private_message = Map.empty, login_username = login\<rparr>"

text \<open>A plugin of user \<^verbatim>\<open>me\<close> with an API key set.\<close>

definition configured_plugin :: plugin where
  "configured_plugin =
     (initial_plugin (Some (ustr ''me'')))\<lparr>settings := default_settings\<lparr>api_key := ustr ''key''\<rparr>\<rparr>"

text \<open>A provider that answers every request with one translation, \<^verbatim>\<open>Hallo\<close> from
  \<^verbatim>\<open>ES\<close>.\<close>

definition hallo_payload :: pyval where
  "hallo_payload =
     PDict [(ustr ''translations'',
             PList [PDict [(ustr ''text'', PStr (ustr ''Hallo'')),
                           (ustr ''detected_source_language'', PStr (ustr ''ES''))]])]"

definition hallo_provider :: "request \<Rightarrow> http_outcome" where
  "hallo_provider req = Parsed hallo_payload"

text \<open>A provider whose first translation has a \<^verbatim>\<open>null\<close> text next to a detected language.\<close>

definition null_text_payload :: pyval where
  "null_text_payload =
     PDict [(ustr ''translations'',
             PList [PDict [(ustr ''text'', PNone),
                           (ustr ''detected_source_language'', PStr (ustr ''EN''))]])]"

definition null_text_provider :: "request \<Rightarrow> http_outcome" where
  "null_text_provider req = Parsed null_text_payload"

text \<open>A payload with a translation and, beside it, a message that reports an error.\<close>

definition error_and_translation_payload :: pyval where
  "error_and_translation_payload =
     PDict [(ustr ''message'', PStr (ustr ''Quota error'')),
            (ustr ''translations'', PList [PDict [(ustr ''text'', PStr (ustr ''Hallo''))]])]"

definition error_and_translation_provider :: "request \<Rightarrow> http_outcome" where
  "error_and_translation_provider req = Parsed error_and_translation_payload"

text \<open>The request that the configured plugin sends for \<^verbatim>\<open>hola\<close> and a target.\<close>

definition hola_request :: "pystr \<Rightarrow> request" where
  "hola_request target =
     \<lparr>req_auth_key = ustr ''key'', req_text = ustr ''hola'', req_target_lang = target,
      req_preserve_formatting = True\<rparr>"

text \<open>The silent task of the auto-translate notifier for the line \<^verbatim>\<open>hola\<close> of \<^verbatim>\<open>ana\<close> in
  the room \<^verbatim>\<open>lobby\<close>.\<close>

definition hola_task :: task where
  "hola_task =
     \<lparr>task_text = ustr ''hola'', task_target_lang = ustr ''EN-GB'',
      task_on_success =
        IncomingPublicEcho (ustr ''lobby'') (ustr ''ana'') (ustr ''hola'') (ustr ''EN-GB''),
      task_silent = True\<rparr>"

text \<open>
  The branches of \<^verbatim>\<open>_translate_and_detect\<close> that end in \<^verbatim>\<open>return (None, None)\<close>: no API
  key, an exception of the transport, a body that is no JSON, and translations that are
  missing or false.
\<close>

definition client_failure ::
  "unicode \<Rightarrow> (request \<Rightarrow> http_outcome) \<Rightarrow> settings \<Rightarrow> pystr \<Rightarrow> pystr option \<Rightarrow> bool" where
  "client_failure U respond s text lang =
     (if strip U (api_key s) = [] then True
      else (case respond (build_request s text lang (strip U (api_key s))) of
              TransportFailure err \<Rightarrow> True
            | MalformedBody \<Rightarrow> True
            | Parsed payload \<Rightarrow>
                (case py_get payload (ustr ''translations'') PNone of
                   Inl e \<Rightarrow> False
                 | Inr translations \<Rightarrow> \<not> truthy translations)))"

text \<open>The \<^verbatim>\<open>text\<close> and the \<^verbatim>\<open>detected_source_language\<close> of a translation object, with the
  defaults of the two \<^verbatim>\<open>get\<close> calls.\<close>

definition text_field :: "(pystr \<times> pyval) list \<Rightarrow> pyval" where
  "text_field obj = (case map_of obj (ustr ''text'') of Some v \<Rightarrow> v | None \<Rightarrow> PStr [])"

definition detected_field :: "(pystr \<times> pyval) list \<Rightarrow> pyval" where
  "detected_field obj =
     (case map_of obj (ustr ''detected_source_language'') of Some v \<Rightarrow> v | None \<Rightarrow> PNone)"

text \<open>The message of a payload object is missing or a string, so that testing it for
  an error raises nothing.\<close>

definition message_is_text :: "(pystr \<times> pyval) list \<Rightarrow> bool" where
  "message_is_text kvs =
     (case map_of kvs (ustr ''message'') of
        None \<Rightarrow> True
      | Some (PStr m) \<Rightarrow> True
      | Some v \<Rightarrow> False)"

text \<open>The message of a payload object reports an error: it is a string with
  \<^verbatim>\<open>error\<close> in it, in any case of the letters.\<close>

definition message_reports_error :: "unicode \<Rightarrow> (pystr \<times> pyval) list \<Rightarrow> bool" where
  "message_reports_error U kvs =
     (case map_of kvs (ustr ''message'') of
        Some (PStr m) \<Rightarrow> contains (lower U m) (ustr ''error'')
      | _ \<Rightarrow> False)"

text \<open>The configured plugin after \<^verbatim>\<open>ana\<close> has written \<^verbatim>\<open>hola\<close> in the room \<^verbatim>\<open>lobby\<close> and in a
  private chat.\<close>

definition remembering_plugin :: plugin where
  "remembering_plugin =
     fst (incoming_private_chat_notification
            (fst (incoming_public_chat_notification configured_plugin (ustr ''lobby'')
                    (ustr ''ana'') (ustr ''hola'')))
            (ustr ''ana'') (ustr ''hola''))"

text \<open>
  The detected source language starts with \<^verbatim>\<open>EN\<close>, whatever the case of its letters; and
  the code shown in the label, with \<^verbatim>\<open>?\<close> in its place when nothing was detected.
\<close>

definition detected_english :: "unicode \<Rightarrow> pyval \<Rightarrow> bool" where
  "detected_english U detected =
     (case detected of PStr d \<Rightarrow> startswith (upper U d) (ustr ''EN'') | _ \<Rightarrow> False)"

definition label_code :: "unicode \<Rightarrow> pyval \<Rightarrow> pystr" where
  "label_code U detected =
     (case detected of PStr d \<Rightarrow> (if d = [] then ustr ''?'' else upper U d) | _ \<Rightarrow> ustr ''?'')"



text \<open>An occurrence that sends something to a room or to a peer.\<close>

fun transmits :: "thread \<times> occurrence \<Rightarrow> bool" where
  "transmits (th, Did e) = is_transmission e"
| "transmits (th, Called cb result) = False"

text \<open>
  The form fields of a request for a text and a target language, with the settings the
  client reads when it runs: the stripped API key and the \<^verbatim>\<open>preserve_formatting\<close> flag.
\<close>

definition translation_request :: "unicode \<Rightarrow> settings \<Rightarrow> pystr \<Rightarrow> pystr \<Rightarrow> request" where
  "translation_request U s body lang =
     \<lparr>req_auth_key = strip U (api_key s), req_text = body, req_target_lang = lang,
      req_preserve_formatting = preserve_formatting s\<rparr>"

text \<open>
  The provider answers a request with a JSON object whose translations are a list that
  begins with an object; \<open>tv\<close> is the \<^verbatim>\<open>text\<close> of that object and \<open>dv\<close> its
  \<^verbatim>\<open>detected_source_language\<close>.
\<close>

definition provider_returns ::
  "(request \<Rightarrow> http_outcome) \<Rightarrow> request \<Rightarrow> pyval \<Rightarrow> pyval \<Rightarrow> bool" where
  "provider_returns respond req tv dv =
     (case respond req of
        Parsed (PDict kvs) \<Rightarrow>
          (case map_of kvs (ustr ''translations'') of
             Some (PList (PDict first # others)) \<Rightarrow>
               text_field first = tv \<and> detected_field first = dv
           | _ \<Rightarrow> False)
      | _ \<Rightarrow> False)"

text \<open>
  The course of a dispatched translation that completes: the handler starts the thread
  on the main thread; the thread makes the request and schedules the delivery; on the
  main thread the delivery calls \<^verbatim>\<open>on_success\<close> with the result, and \<open>effs\<close> is what the
  callback does there.
\<close>

definition completed_trace ::
  "task \<Rightarrow> request \<Rightarrow> pyval \<times> pyval \<Rightarrow> effect list \<Rightarrow> (thread \<times> occurrence) list" where
  "completed_trace tk req result effs =
     [(MainThread, Did (StartThread tk)),
      (WorkerThread, Did (NetCall req)),
      (WorkerThread, Did (InvokeMainThread
         \<lparr>del_result = result, del_silent = task_silent tk,
          del_on_success = task_on_success tk\<rparr>)),
      (MainThread, Called (task_on_success tk) result)]
     @ map (\<lambda>e. (MainThread, Did e)) effs"

text \<open>A provider whose first translation has an empty text, detected as \<^verbatim>\<open>ES\<close>.\<close>

definition empty_text_payload :: pyval where
  "empty_text_payload =
     PDict [(ustr ''translations'',
             PList [PDict [(ustr ''text'', PStr []),
                           (ustr ''detected_source_language'', PStr (ustr ''ES''))]])]"

definition empty_text_provider :: "request \<Rightarrow> http_outcome" where
  "empty_text_provider req = Parsed empty_text_payload"

section \<open>Properties of the validator and the normalizer\<close>

lemma lang_chars_iff:
  "lang_chars U s = (\<forall>c \<in> set s. isalpha U c \<or> c = hyphen \<or> c = underscore)"
  by (induction s) auto

lemma ustr_simps [simp]:
  "ustr [] = []"
  "ustr (c # cs) = of_char c # ustr cs"
  by (simp_all add: ustr_def)

lemma startswith_single: "startswith s [q] = (s \<noteq> [] \<and> hd s = q)"
  by (cases s) (simp_all add: startswith_def)

lemma endswith_single: "endswith s [q] = (s \<noteq> [] \<and> last s = q)"
proof (cases s rule: rev_cases)
  case Nil
  then show ?thesis by (simp add: endswith_def)
next
  case (snoc ys y)
  then show ?thesis by (simp add: endswith_def)
qed

lemma strip_wrapping_quotes_eq:
  "strip_wrapping_quotes s = (if wrapped s then butlast (tl s) else s)"
  by (auto simp: strip_wrapping_quotes_def wrapped_def quote_pairs_def
      startswith_single endswith_single)

lemma strip_wrapping_quotes_unwrapped:
  "\<not> wrapped s \<Longrightarrow> strip_wrapping_quotes s = s"
  by (simp add: strip_wrapping_quotes_eq)

text \<open>
  C3. For every string, \<open>looks_like_lang\<close> is true exactly when the length is between 1
  and 10 and every character is alphabetic, a hyphen or an underscore; so it is false for
  the empty string, for a string longer than 10, and for a string with any other
  character.
\<close>

theorem looks_like_lang_iff:
  "looks_like_lang U s =
     (1 \<le> length s \<and> length s \<le> 10 \<and>
      (\<forall>c \<in> set s. isalpha U c \<or> c = hyphen \<or> c = underscore))"
  by (cases s) (auto simp: looks_like_lang_def lang_chars_iff)

theorem looks_like_lang_iff_witness:
  "looks_like_lang ascii_only (ustr ''EN-GB'') \<and>
   \<not> looks_like_lang ascii_only (ustr '''') \<and>
   \<not> looks_like_lang ascii_only (ustr ''PORTUGUESE-BR'') \<and>
   \<not> looks_like_lang ascii_only (ustr ''E N'') \<and>
   list_all (\<lambda>c. isalpha ascii_only c \<or> c = hyphen \<or> c = underscore) (ustr ''EN-GB'')"
  using looks_like_lang_iff [of ascii_only "ustr ''EN-GB''"]
    looks_like_lang_iff [of ascii_only "ustr ''''"]
    looks_like_lang_iff [of ascii_only "ustr ''PORTUGUESE-BR''"]
    looks_like_lang_iff [of ascii_only "ustr ''E N''"]
  by (simp add: isalpha_def ascii_letter_def ascii_upper_letter_def ascii_lower_letter_def
      hyphen_def underscore_def)

text \<open>
  C4, as stated: normalizing twice is the same as normalizing once, for every string.
  It fails on a text wrapped twice: from \<^verbatim>\<open>""a""\<close> one pass leaves \<^verbatim>\<open>"a"\<close> and the
  second pass leaves \<^verbatim>\<open>a\<close>.
\<close>

theorem strip_wrapping_quotes_not_idempotent:
  "strip_wrapping_quotes (strip_wrapping_quotes ([dquote, dquote] @ ustr ''a'' @ [dquote, dquote]))
     \<noteq> strip_wrapping_quotes ([dquote, dquote] @ ustr ''a'' @ [dquote, dquote])"
  by (simp add: strip_wrapping_quotes_eq wrapped_def dquote_def squote_def)

text \<open>
  C4, amended. The normalizer removes one pair of wrapping quotes from a wrapped text and
  leaves any other text as it is; normalizing a text that is not wrapped (in particular a
  normalized text that is not wrapped again) returns it unchanged. \<^verbatim>\<open>hello\<close> in double or
  in single quotes gives \<^verbatim>\<open>hello\<close>, and \<^verbatim>\<open>it's\<close> stays as it is.
\<close>

theorem strip_wrapping_quotes_one_layer:
  "strip_wrapping_quotes s = (if wrapped s then butlast (tl s) else s) \<and>
   (\<not> wrapped (strip_wrapping_quotes s) \<longrightarrow>
      strip_wrapping_quotes (strip_wrapping_quotes s) = strip_wrapping_quotes s) \<and>
   strip_wrapping_quotes ([dquote] @ ustr ''hello'' @ [dquote]) = ustr ''hello'' \<and>
   strip_wrapping_quotes ([squote] @ ustr ''hello'' @ [squote]) = ustr ''hello'' \<and>
   strip_wrapping_quotes (ustr ''it'' @ [squote] @ ustr ''s'') = ustr ''it'' @ [squote] @ ustr ''s''"
proof (intro conjI impI)
  show "strip_wrapping_quotes s = (if wrapped s then butlast (tl s) else s)"
    by (rule strip_wrapping_quotes_eq)
next
  assume "\<not> wrapped (strip_wrapping_quotes s)"
  then show "strip_wrapping_quotes (strip_wrapping_quotes s) = strip_wrapping_quotes s"
    by (rule strip_wrapping_quotes_unwrapped)
next
  show "strip_wrapping_quotes ([dquote] @ ustr ''hello'' @ [dquote]) = ustr ''hello''"
    by (simp add: strip_wrapping_quotes_eq wrapped_def dquote_def squote_def)
next
  show "strip_wrapping_quotes ([squote] @ ustr ''hello'' @ [squote]) = ustr ''hello''"
    by (simp add: strip_wrapping_quotes_eq wrapped_def dquote_def squote_def)
next
  show "strip_wrapping_quotes (ustr ''it'' @ [squote] @ ustr ''s'')
          = ustr ''it'' @ [squote] @ ustr ''s''"
    by (simp add: strip_wrapping_quotes_eq wrapped_def dquote_def squote_def)
qed

theorem strip_wrapping_quotes_one_layer_witness:
  "\<not> wrapped (strip_wrapping_quotes ([dquote] @ ustr ''hello'' @ [dquote])) \<and>
   strip_wrapping_quotes (strip_wrapping_quotes ([dquote] @ ustr ''hello'' @ [dquote]))
     = strip_wrapping_quotes ([dquote] @ ustr ''hello'' @ [dquote])"
proof -
  have unwrapped: "\<not> wrapped (strip_wrapping_quotes ([dquote] @ ustr ''hello'' @ [dquote]))"
    by (simp add: strip_wrapping_quotes_eq wrapped_def dquote_def squote_def)
  with strip_wrapping_quotes_one_layer [of "[dquote] @ ustr ''hello'' @ [dquote]"]
  show ?thesis by blast
qed

lemma strip_Nil: "strip U [] = []"
  by (simp add: strip_def)

text \<open>
  C6. With an empty API key both variants of the client fail at once and make no HTTP
  request: \<^verbatim>\<open>_translate_via_deepl\<close> reports that the key is not set and returns
  \<^verbatim>\<open>None\<close>, \<^verbatim>\<open>_translate_and_detect\<close> returns \<^verbatim>\<open>(None, None)\<close> and has no effect at all.
\<close>

theorem unconfigured_fails_fast:
  "api_key s = [] \<Longrightarrow>
     translate_via_deepl U respond s text lang = ([Output key_not_set_message], Inr PNone) \<and>
     translate_and_detect U respond s text lang = ([], Inr (PNone, PNone)) \<and>
     \<not> list_ex is_net_call (fst (translate_via_deepl U respond s text lang)) \<and>
     \<not> list_ex is_net_call (fst (translate_and_detect U respond s text lang))"
  by (simp add: translate_via_deepl_def translate_and_detect_def strip_Nil)

theorem unconfigured_fails_fast_witness:
  "api_key default_settings = [] \<and>
   translate_via_deepl ascii_only hallo_provider default_settings (ustr ''hola'') None
     = ([Output key_not_set_message], Inr PNone) \<and>
   translate_and_detect ascii_only hallo_provider default_settings (ustr ''hola'') None
     = ([], Inr (PNone, PNone))"
proof -
  have k: "api_key default_settings = []"
    by (simp add: default_settings_def)
  from unconfigured_fails_fast [OF k, of ascii_only hallo_provider "ustr ''hola''" None] k
  show ?thesis by simp
qed

text \<open>
  C9. An incoming public line stores (sender, line) under the room, and an incoming
  private line under the peer, exactly when the sender is not the logged-in user; a line
  of the logged-in user leaves the whole plugin state, so every stored entry, as it was.
\<close>

theorem memory_records_other_senders:
  "(Some user \<noteq> login_username p \<longrightarrow>
      fst (incoming_public_chat_notification p room user line)
        = p\<lparr>last_public_message := (last_public_message p)(room \<mapsto> (user, line))\<rparr> \<and>
      fst (incoming_private_chat_notification p user line)
        = p\<lparr>last_private_message := (last_private_message p)(user \<mapsto> (user, line))\<rparr>) \<and>
   (Some user = login_username p \<longrightarrow>
      fst (incoming_public_chat_notification p room user line) = p \<and>
      fst (incoming_private_chat_notification p user line) = p)"
  by (simp add: incoming_public_chat_notification_def incoming_private_chat_notification_def
      Let_def)

theorem memory_records_other_senders_witness:
  "Some (ustr ''ana'') \<noteq> login_username configured_plugin \<and>
   last_public_message
     (fst (incoming_public_chat_notification configured_plugin (ustr ''lobby'') (ustr ''ana'')
        (ustr ''hola''))) (ustr ''lobby'') = Some (ustr ''ana'', ustr ''hola'') \<and>
   last_private_message
     (fst (incoming_private_chat_notification configured_plugin (ustr ''ana'') (ustr ''hola'')))
     (ustr ''ana'') = Some (ustr ''ana'', ustr ''hola'') \<and>
   Some (ustr ''me'') = login_username configured_plugin \<and>
   fst (incoming_public_chat_notification configured_plugin (ustr ''lobby'') (ustr ''me'')
     (ustr ''hi'')) = configured_plugin \<and>
   fst (incoming_private_chat_notification configured_plugin (ustr ''me'') (ustr ''hi''))
     = configured_plugin"
proof -
  have other: "Some (ustr ''ana'') \<noteq> login_username configured_plugin"
    by (simp add: configured_plugin_def initial_plugin_def)
  have self: "Some (ustr ''me'') = login_username configured_plugin"
    by (simp add: configured_plugin_def initial_plugin_def)
  from memory_records_other_senders
         [of "ustr ''ana''" configured_plugin "ustr ''lobby''" "ustr ''hola''"]
       memory_records_other_senders
         [of "ustr ''me''" configured_plugin "ustr ''lobby''" "ustr ''hi''"]
       other self
  show ?thesis by simp
qed

lemma configured_settings [simp]:
  "api_key (settings configured_plugin) = ustr ''key''"
  "target_lang (settings configured_plugin) = ustr ''DE''"
  "preserve_formatting (settings configured_plugin) = True"
  "auto_translate_incoming (settings configured_plugin) = True"
  "auto_incoming_target_lang (settings configured_plugin) = ustr ''EN-GB''"
  "login_username configured_plugin = Some (ustr ''me'')"
  "last_public_message configured_plugin = Map.empty"
  "last_private_message configured_plugin = Map.empty"
  by (simp_all add: configured_plugin_def initial_plugin_def default_settings_def)

lemmas eval_client =
  translate_and_detect_def translate_via_deepl_def via_deepl_payload_def provider_error_def
  detect_payload_def Let_def strip_def isspace_def build_request_def hola_request_def
  effective_target_def

lemma client_failure_result:
  "client_failure U respond s text lang \<Longrightarrow>
     snd (translate_and_detect U respond s text lang) = Inr (PNone, PNone)"
  by (auto simp: client_failure_def translate_and_detect_def detect_payload_def Let_def
      split: if_splits http_outcome.splits sum.splits)

text \<open>
  C2, as stated: when the worker's result has no translated text and the dispatch is
  silent, \<^verbatim>\<open>on_success\<close> is called with \<^verbatim>\<open>(None, None)\<close>. It fails when the first
  translation of the payload has a \<^verbatim>\<open>null\<close> text and a detected language: the worker's
  result is \<^verbatim>\<open>(None, "EN")\<close> and that pair is what \<^verbatim>\<open>on_success\<close> gets.
\<close>

theorem silent_delivery_of_null_text:
  "worker ascii_only null_text_provider (settings configured_plugin) hola_task
     = [NetCall (hola_request (ustr ''EN-GB'')),
        InvokeMainThread \<lparr>del_result = (PNone, PStr (ustr ''EN'')), del_silent = True,
                          del_on_success = task_on_success hola_task\<rparr>] \<and>
   deliver \<lparr>del_result = (PNone, PStr (ustr ''EN'')), del_silent = True,
            del_on_success = task_on_success hola_task\<rparr>
     = Some (task_on_success hola_task, (PNone, PStr (ustr ''EN''))) \<and>
   (PNone, PStr (ustr ''EN'')) \<noteq> (PNone, PNone)"
  by (simp add: worker_def hola_task_def null_text_provider_def null_text_payload_def
      deliver_def eval_client)

text \<open>
  C2, amended. \<^verbatim>\<open>deliver\<close> makes no call when the translated text is absent and the
  dispatch is not silent; when it is silent, it calls \<^verbatim>\<open>on_success\<close> with the worker's
  result pair as it is; when the text is present, it calls \<^verbatim>\<open>on_success\<close> with the
  (text, detected) pair. The pair is the one the client returned, and it is
  \<^verbatim>\<open>(None, None)\<close> whenever the client returned through one of its failure branches.
\<close>

theorem deliver_passes_result_on:
  "(fst (del_result d) = PNone \<and> \<not> del_silent d \<longrightarrow> deliver d = None) \<and>
   (fst (del_result d) = PNone \<and> del_silent d \<longrightarrow>
      deliver d = Some (del_on_success d, del_result d)) \<and>
   (fst (del_result d) \<noteq> PNone \<longrightarrow> deliver d = Some (del_on_success d, del_result d)) \<and>
   (translate_and_detect U respond s (task_text t) (Some (task_target_lang t)) = (effs, Inr r) \<longrightarrow>
      worker U respond s t
        = effs @ [InvokeMainThread \<lparr>del_result = r, del_silent = task_silent t,
                                     del_on_success = task_on_success t\<rparr>]) \<and>
   (client_failure U respond s (task_text t) (Some (task_target_lang t)) \<longrightarrow>
      snd (translate_and_detect U respond s (task_text t) (Some (task_target_lang t)))
        = Inr (PNone, PNone))"
proof (intro conjI impI)
  assume "fst (del_result d) = PNone \<and> \<not> del_silent d"
  then show "deliver d = None"
    by (cases "del_result d") (simp add: deliver_def)
next
  assume "fst (del_result d) = PNone \<and> del_silent d"
  then show "deliver d = Some (del_on_success d, del_result d)"
    by (cases "del_result d") (simp add: deliver_def)
next
  assume "fst (del_result d) \<noteq> PNone"
  then show "deliver d = Some (del_on_success d, del_result d)"
    by (cases "del_result d") (simp add: deliver_def)
next
  assume "translate_and_detect U respond s (task_text t) (Some (task_target_lang t))
            = (effs, Inr r)"
  then show "worker U respond s t
        = effs @ [InvokeMainThread \<lparr>del_result = r, del_silent = task_silent t,
                                     del_on_success = task_on_success t\<rparr>]"
    by (simp add: worker_def)
next
  assume "client_failure U respond s (task_text t) (Some (task_target_lang t))"
  then show "snd (translate_and_detect U respond s (task_text t) (Some (task_target_lang t)))
        = Inr (PNone, PNone)"
    by (rule client_failure_result)
qed

theorem deliver_passes_result_on_witness:
  "deliver \<lparr>del_result = (PNone, PNone), del_silent = False,
            del_on_success = ShortcutSend (Chatroom (ustr ''lobby''))\<rparr> = None \<and>
   deliver \<lparr>del_result = (PNone, PNone), del_silent = True,
            del_on_success = task_on_success hola_task\<rparr>
     = Some (task_on_success hola_task, (PNone, PNone)) \<and>
   deliver \<lparr>del_result = (PStr (ustr ''Hallo''), PStr (ustr ''ES'')), del_silent = False,
            del_on_success = ShortcutSend (Chatroom (ustr ''lobby''))\<rparr>
     = Some (ShortcutSend (Chatroom (ustr ''lobby'')), (PStr (ustr ''Hallo''), PStr (ustr ''ES''))) \<and>
   worker ascii_only hallo_provider (settings configured_plugin) hola_task
     = [NetCall (hola_request (ustr ''EN-GB'')),
        InvokeMainThread \<lparr>del_result = (PStr (ustr ''Hallo''), PStr (ustr ''ES'')),
                          del_silent = True, del_on_success = task_on_success hola_task\<rparr>] \<and>
   client_failure ascii_only hallo_provider default_settings (ustr ''hola'') (Some (ustr ''EN-GB'')) \<and>
   snd (translate_and_detect ascii_only hallo_provider default_settings (ustr ''hola'')
          (Some (ustr ''EN-GB''))) = Inr (PNone, PNone)"
proof -
  let ?cb = "ShortcutSend (Chatroom (ustr ''lobby''))"
  let ?d1 = "\<lparr>del_result = (PNone, PNone), del_silent = False, del_on_success = ?cb\<rparr>"
  let ?d2 = "\<lparr>del_result = (PNone, PNone), del_silent = True,
               del_on_success = task_on_success hola_task\<rparr>"
  let ?d3 = "\<lparr>del_result = (PStr (ustr ''Hallo''), PStr (ustr ''ES'')), del_silent = False,
               del_on_success = ?cb\<rparr>"
  have run: "translate_and_detect ascii_only hallo_provider (settings configured_plugin)
               (task_text hola_task) (Some (task_target_lang hola_task))
             = ([NetCall (hola_request (ustr ''EN-GB''))],
                Inr (PStr (ustr ''Hallo''), PStr (ustr ''ES'')))"
    by (simp add: hola_task_def hallo_provider_def hallo_payload_def eval_client)
  have failed: "client_failure ascii_only hallo_provider default_settings (task_text hola_task)
                  (Some (task_target_lang hola_task))"
    by (simp add: client_failure_def default_settings_def strip_def)
  have texts: "task_text hola_task = ustr ''hola''" "task_target_lang hola_task = ustr ''EN-GB''"
      "task_silent hola_task = True"
    by (simp_all add: hola_task_def)
  from deliver_passes_result_on [of ?d1] have c1: "deliver ?d1 = None" by simp
  from deliver_passes_result_on [of ?d2]
  have c2: "deliver ?d2 = Some (task_on_success hola_task, (PNone, PNone))" by simp
  from deliver_passes_result_on [of ?d3]
  have c3: "deliver ?d3 = Some (?cb, (PStr (ustr ''Hallo''), PStr (ustr ''ES'')))" by simp
  from deliver_passes_result_on [of ?d1 ascii_only hallo_provider "settings configured_plugin"
         hola_task "[NetCall (hola_request (ustr ''EN-GB''))]"
         "(PStr (ustr ''Hallo''), PStr (ustr ''ES''))"] run
  have c4: "worker ascii_only hallo_provider (settings configured_plugin) hola_task
     = [NetCall (hola_request (ustr ''EN-GB'')),
        InvokeMainThread \<lparr>del_result = (PStr (ustr ''Hallo''), PStr (ustr ''ES'')),
                          del_silent = True, del_on_success = task_on_success hola_task\<rparr>]"
    by (simp add: texts)
  from deliver_passes_result_on [of ?d1 ascii_only hallo_provider default_settings hola_task]
    failed
  have c5: "snd (translate_and_detect ascii_only hallo_provider default_settings
                   (task_text hola_task) (Some (task_target_lang hola_task)))
              = Inr (PNone, PNone)"
    by blast
  from c1 c2 c3 c4 c5 failed show ?thesis
    by (simp only: texts)
qed

lemmas eval_strings =
  lower_def lower_char_def upper_def upper_char_def ascii_upper_letter_def
  ascii_lower_letter_def ascii_letter_def startswith_def ascii_only_def

lemma provider_error_of_object:
  "message_is_text kvs \<Longrightarrow>
     provider_error U (PDict kvs)
       = Inr (if message_reports_error U kvs
              then (case map_of kvs (ustr ''message'') of Some (PStr m) \<Rightarrow> Some m | _ \<Rightarrow> None)
              else None)"
  by (auto simp: message_is_text_def message_reports_error_def provider_error_def
      split: option.splits pyval.splits)

lemma reports_error_is_text: "message_reports_error U kvs \<Longrightarrow> message_is_text kvs"
  by (auto simp: message_is_text_def message_reports_error_def split: option.splits pyval.splits)

lemma via_deepl_provider_error:
  "message_reports_error U kvs \<Longrightarrow> snd (via_deepl_payload U (PDict kvs)) = Inr PNone"
  by (frule reports_error_is_text)
     (auto simp: via_deepl_payload_def provider_error_of_object message_reports_error_def
      split: option.splits pyval.splits)

lemma via_deepl_first:
  "map_of kvs (ustr ''translations'') = Some (PList (PDict first # others)) \<Longrightarrow>
   message_is_text kvs \<Longrightarrow> \<not> message_reports_error U kvs \<Longrightarrow>
     snd (via_deepl_payload U (PDict kvs)) = Inr (text_field first)"
  by (simp add: via_deepl_payload_def provider_error_of_object text_field_def)

lemma via_deepl_none:
  "map_of kvs (ustr ''translations'') = None \<or>
   map_of kvs (ustr ''translations'') = Some (PList []) \<Longrightarrow>
   message_is_text kvs \<Longrightarrow> snd (via_deepl_payload U (PDict kvs)) = Inr PNone"
  by (cases "message_reports_error U kvs")
     (auto simp: via_deepl_payload_def provider_error_of_object split: option.splits pyval.splits)

lemma detect_first:
  "map_of kvs (ustr ''translations'') = Some (PList (PDict first # others)) \<Longrightarrow>
     detect_payload (PDict kvs) = Inr (text_field first, detected_field first)"
  by (simp add: detect_payload_def text_field_def detected_field_def)

lemma detect_none:
  "map_of kvs (ustr ''translations'') = None \<or>
   map_of kvs (ustr ''translations'') = Some (PList []) \<Longrightarrow>
     detect_payload (PDict kvs) = Inr (PNone, PNone)"
  by (auto simp: detect_payload_def)

text \<open>
  C5, as stated: whenever the translations list of a parsed payload is not empty, the
  client returns the text of its first object. The user-facing variant does not, when
  the payload also has a message that reports an error: it reports the provider's error
  and returns \<^verbatim>\<open>None\<close>, although the first translation has the text \<^verbatim>\<open>Hallo\<close>.
\<close>

theorem provider_error_hides_translation:
  "translate_via_deepl ascii_only error_and_translation_provider (settings configured_plugin)
     (ustr ''hola'') None
     = ([NetCall (hola_request (ustr ''DE'')),
         Output (ustr ''DeepL error: '' @ ustr ''Quota error'')], Inr PNone) \<and>
   py_get error_and_translation_payload (ustr ''translations'') PNone
     = Inr (PList [PDict [(ustr ''text'', PStr (ustr ''Hallo''))]])"
  by (simp add: error_and_translation_provider_def error_and_translation_payload_def
      eval_client eval_strings)

lemma via_deepl_reports_error:
  assumes "map_of kvs (ustr ''message'') = Some (PStr m)"
    and "contains (lower U m) (ustr ''error'')"
  shows "via_deepl_payload U (PDict kvs) = ([Output (ustr ''DeepL error: '' @ m)], Inr PNone)"
proof -
  from assms have "message_is_text kvs" "message_reports_error U kvs"
    by (simp_all add: message_is_text_def message_reports_error_def)
  with assms(1) show ?thesis
    by (simp add: via_deepl_payload_def provider_error_of_object)
qed

lemma via_deepl_first_effects:
  assumes "map_of kvs (ustr ''translations'') = Some (PList (PDict first # others))"
    and "message_is_text kvs" and "\<not> message_reports_error U kvs"
  shows "via_deepl_payload U (PDict kvs) = ([], Inr (text_field first))"
  using assms by (simp add: via_deepl_payload_def provider_error_of_object text_field_def)

lemma via_deepl_none_effects:
  assumes "map_of kvs (ustr ''translations'') = None \<or>
           map_of kvs (ustr ''translations'') = Some (PList [])"
    and "message_is_text kvs" and "\<not> message_reports_error U kvs"
  shows "via_deepl_payload U (PDict kvs)
           = ([Output (ustr ''DeepL returned no translations'')], Inr PNone)"
  using assms by (auto simp: via_deepl_payload_def provider_error_of_object)

text \<open>
  C5, amended. Let the payload be a JSON object. If its translations are a list that
  begins with an object, the silent variant returns the text of that object (the empty
  string if it has none) with its detected source language (\<^verbatim>\<open>None\<close> if it has none), and
  the user-facing variant returns the same text provided the message of the payload, if
  there is one, is a string that reports no error; if the message reports an error, the
  user-facing variant reports the provider's error, \<^verbatim>\<open>DeepL error: \<close> with the message,
  and returns the failure \<^verbatim>\<open>None\<close>. If the translations are missing or an empty list, the
  silent variant returns \<^verbatim>\<open>(None, None)\<close> and the user-facing variant (the message missing
  or a string) returns \<^verbatim>\<open>None\<close>, a failure and not an empty text, after reporting that no
  translations were returned when the message reports no error. In each case the one
  request is the only other effect, and nothing looks at the HTTP status.
\<close>

theorem first_translation_returned:
  assumes key: "strip U (api_key s) \<noteq> []"
    and resp: "respond (build_request s text lang (strip U (api_key s))) = Parsed (PDict kvs)"
  shows
    "(map_of kvs (ustr ''translations'') = Some (PList (PDict first # others)) \<longrightarrow>
        translate_and_detect U respond s text lang
          = ([NetCall (build_request s text lang (strip U (api_key s)))],
             Inr (text_field first, detected_field first))) \<and>
     (map_of kvs (ustr ''translations'') = Some (PList (PDict first # others)) \<and>
      message_is_text kvs \<and> \<not> message_reports_error U kvs \<longrightarrow>
        translate_via_deepl U respond s text lang
          = ([NetCall (build_request s text lang (strip U (api_key s)))],
             Inr (text_field first))) \<and>
     (map_of kvs (ustr ''message'') = Some (PStr m) \<and> contains (lower U m) (ustr ''error'') \<longrightarrow>
        translate_via_deepl U respond s text lang
          = ([NetCall (build_request s text lang (strip U (api_key s))),
              Output (ustr ''DeepL error: '' @ m)], Inr PNone)) \<and>
     (message_reports_error U kvs \<longrightarrow>
        snd (translate_via_deepl U respond s text lang) = Inr PNone) \<and>
     (map_of kvs (ustr ''translations'') = None \<or>
      map_of kvs (ustr ''translations'') = Some (PList []) \<longrightarrow>
        translate_and_detect U respond s text lang
          = ([NetCall (build_request s text lang (strip U (api_key s)))],
             Inr (PNone, PNone))) \<and>
     ((map_of kvs (ustr ''translations'') = None \<or>
       map_of kvs (ustr ''translations'') = Some (PList [])) \<and> message_is_text kvs \<longrightarrow>
        snd (translate_via_deepl U respond s text lang) = Inr PNone) \<and>
     ((map_of kvs (ustr ''translations'') = None \<or>
       map_of kvs (ustr ''translations'') = Some (PList [])) \<and>
      message_is_text kvs \<and> \<not> message_reports_error U kvs \<longrightarrow>
        translate_via_deepl U respond s text lang
          = ([NetCall (build_request s text lang (strip U (api_key s))),
              Output (ustr ''DeepL returned no translations'')], Inr PNone))"
proof -
  let ?req = "build_request s text lang (strip U (api_key s))"
  have silent: "translate_and_detect U respond s text lang
                  = ([NetCall ?req], detect_payload (PDict kvs))"
    using key resp by (simp add: translate_and_detect_def Let_def)
  have loud: "translate_via_deepl U respond s text lang
                = (NetCall ?req # fst (via_deepl_payload U (PDict kvs)),
                   snd (via_deepl_payload U (PDict kvs)))"
    using key resp by (simp add: translate_via_deepl_def Let_def)
  show ?thesis
    unfolding silent loud
    by (intro conjI impI)
       (simp_all add: detect_first detect_none via_deepl_first via_deepl_none
          via_deepl_provider_error via_deepl_reports_error via_deepl_first_effects
          via_deepl_none_effects del: ustr_simps)
qed

theorem first_translation_returned_witness:
  "strip ascii_only (api_key (settings configured_plugin)) \<noteq> [] \<and>
   translate_and_detect ascii_only hallo_provider (settings configured_plugin)
     (ustr ''hola'') None
     = ([NetCall (hola_request (ustr ''DE''))], Inr (PStr (ustr ''Hallo''), PStr (ustr ''ES''))) \<and>
   translate_via_deepl ascii_only hallo_provider (settings configured_plugin)
     (ustr ''hola'') None
     = ([NetCall (hola_request (ustr ''DE''))], Inr (PStr (ustr ''Hallo''))) \<and>
   translate_via_deepl ascii_only error_and_translation_provider
     (settings configured_plugin) (ustr ''hola'') None
     = ([NetCall (hola_request (ustr ''DE'')),
         Output (ustr ''DeepL error: '' @ ustr ''Quota error'')], Inr PNone) \<and>
   translate_and_detect ascii_only (\<lambda>req. Parsed (PDict [])) (settings configured_plugin)
     (ustr ''hola'') None
     = ([NetCall (hola_request (ustr ''DE''))], Inr (PNone, PNone)) \<and>
   translate_via_deepl ascii_only (\<lambda>req. Parsed (PDict [])) (settings configured_plugin)
     (ustr ''hola'') None
     = ([NetCall (hola_request (ustr ''DE'')),
         Output (ustr ''DeepL returned no translations'')], Inr PNone)"
proof -
  let ?s = "settings configured_plugin"
  let ?first = "[(ustr ''text'', PStr (ustr ''Hallo'')),
                 (ustr ''detected_source_language'', PStr (ustr ''ES''))]"
  let ?hallo = "[(ustr ''translations'', PList [PDict ?first])]"
  let ?quota = "[(ustr ''message'', PStr (ustr ''Quota error'')),
                 (ustr ''translations'', PList [PDict [(ustr ''text'', PStr (ustr ''Hallo''))]])]"
  let ?req = "build_request ?s (ustr ''hola'') None (strip ascii_only (api_key ?s))"
  have key: "strip ascii_only (api_key ?s) \<noteq> []"
    by (simp add: strip_def isspace_def)
  have req: "?req = hola_request (ustr ''DE'')"
    by (simp add: build_request_def effective_target_def hola_request_def strip_def isspace_def)
  have r1: "hallo_provider ?req = Parsed (PDict ?hallo)"
    by (simp add: hallo_provider_def hallo_payload_def)
  have r2: "error_and_translation_provider ?req = Parsed (PDict ?quota)"
    by (simp add: error_and_translation_provider_def error_and_translation_payload_def)
  have r3: "(\<lambda>req. Parsed (PDict [])) ?req = Parsed (PDict [])"
    by simp
  have h1: "map_of ?hallo (ustr ''translations'') = Some (PList (PDict ?first # []))"
    by simp
  have h2: "message_is_text ?hallo" "\<not> message_reports_error ascii_only ?hallo"
    by (simp_all add: message_is_text_def message_reports_error_def)
  have h3: "map_of ?quota (ustr ''message'') = Some (PStr (ustr ''Quota error'')) \<and>
            contains (lower ascii_only (ustr ''Quota error'')) (ustr ''error'')"
    by (simp add: eval_strings)
  have h4: "map_of [] (ustr ''translations'') = (None :: pyval option)" "message_is_text []"
      "\<not> message_reports_error ascii_only []"
    by (simp_all add: message_is_text_def message_reports_error_def)
  have fields: "text_field ?first = PStr (ustr ''Hallo'')" "detected_field ?first = PStr (ustr ''ES'')"
    by (simp_all add: text_field_def detected_field_def)
  from first_translation_returned [of ascii_only "?s" hallo_provider "ustr ''hola''" None "?hallo" "?first" "[]",
         OF key r1] h1 h2
  have "translate_and_detect ascii_only hallo_provider ?s (ustr ''hola'') None
          = ([NetCall ?req], Inr (text_field ?first, detected_field ?first))"
    and "translate_via_deepl ascii_only hallo_provider ?s (ustr ''hola'') None
          = ([NetCall ?req], Inr (text_field ?first))"
    by blast+
  then have c1: "translate_and_detect ascii_only hallo_provider ?s (ustr ''hola'') None
              = ([NetCall (hola_request (ustr ''DE''))],
                 Inr (PStr (ustr ''Hallo''), PStr (ustr ''ES'')))"
    and c2: "translate_via_deepl ascii_only hallo_provider ?s (ustr ''hola'') None
              = ([NetCall (hola_request (ustr ''DE''))], Inr (PStr (ustr ''Hallo'')))"
    by (simp_all only: req fields)
  from first_translation_returned [of ascii_only "?s" error_and_translation_provider "ustr ''hola''" None "?quota"
         _ _ "ustr ''Quota error''", OF key r2] h3
  have "translate_via_deepl ascii_only error_and_translation_provider ?s (ustr ''hola'') None
          = ([NetCall ?req, Output (ustr ''DeepL error: '' @ ustr ''Quota error'')], Inr PNone)"
    by blast
  then have c3: "translate_via_deepl ascii_only error_and_translation_provider ?s
                   (ustr ''hola'') None
          = ([NetCall (hola_request (ustr ''DE'')),
              Output (ustr ''DeepL error: '' @ ustr ''Quota error'')], Inr PNone)"
    by (simp only: req)
  from first_translation_returned [of ascii_only "?s" "\<lambda>req. Parsed (PDict [])" "ustr ''hola''" None "[]",
         OF key r3] h4
  have "translate_and_detect ascii_only (\<lambda>req. Parsed (PDict [])) ?s (ustr ''hola'') None
          = ([NetCall ?req], Inr (PNone, PNone))"
    and "translate_via_deepl ascii_only (\<lambda>req. Parsed (PDict [])) ?s (ustr ''hola'') None
          = ([NetCall ?req, Output (ustr ''DeepL returned no translations'')], Inr PNone)"
    by blast+
  then have c4: "translate_and_detect ascii_only (\<lambda>req. Parsed (PDict [])) ?s
                   (ustr ''hola'') None
          = ([NetCall (hola_request (ustr ''DE''))], Inr (PNone, PNone))"
    and c5: "translate_via_deepl ascii_only (\<lambda>req. Parsed (PDict [])) ?s (ustr ''hola'') None
          = ([NetCall (hola_request (ustr ''DE'')),
              Output (ustr ''DeepL returned no translations'')], Inr PNone)"
    by (simp_all only: req)
  from key c1 c2 c3 c4 c5 show ?thesis by blast
qed

lemma ascii_letter_isalpha: "ascii_letter c \<Longrightarrow> isalpha U c"
  by (auto simp: isalpha_def ascii_letter_def ascii_upper_letter_def ascii_lower_letter_def)

lemma lang_tail_char_accepted:
  "lang_tail_char c \<Longrightarrow> isalpha U c \<or> c = hyphen \<or> c = underscore"
  by (auto simp: lang_tail_char_def ascii_letter_isalpha)

lemma token_accepted:
  assumes "ascii_letter c" and "list_all lang_tail_char rest" and "length rest \<le> 9"
  shows "looks_like_lang U (c # rest)"
  using assms
  by (auto simp: looks_like_lang_def lang_chars_iff list_all_iff ascii_letter_isalpha
      dest: lang_tail_char_accepted)

lemma shortcut_match_token:
  assumes "shortcut_match U line = Some (target, body)"
  shows "\<exists>c rest. target = c # rest \<and> ascii_letter c \<and> rest \<noteq> [] \<and>
           list_all lang_tail_char rest \<and> length rest \<le> 9"
proof -
  from assms obtain c1 cs where
    tok: "target = c1 # takeWhile lang_tail_char (take 9 cs)"
    and letter: "ascii_letter c1"
    and some: "takeWhile lang_tail_char (take 9 cs) \<noteq> []"
    by (auto simp: shortcut_match_def Let_def split: list.splits if_splits)
  have "length (takeWhile lang_tail_char (take 9 cs)) \<le> length (take 9 cs)"
    by (rule length_takeWhile_le)
  then have short: "length (takeWhile lang_tail_char (take 9 cs)) \<le> 9"
    by simp
  have all: "list_all lang_tail_char (takeWhile lang_tail_char (take 9 cs))"
    by (auto simp: list_all_iff dest: set_takeWhileD)
  from tok letter some short all show ?thesis by blast
qed

lemma shortcut_match_accepted:
  "shortcut_match U line = Some (target, body) \<Longrightarrow> looks_like_lang U target"
  by (drule shortcut_match_token) (auto intro: token_accepted)

lemma shortcut_match_handled:
  "shortcut_match U line = Some (target, body) \<Longrightarrow>
     snd (handle_outgoing_shortcut U p line context)"
  by (frule shortcut_match_accepted)
     (auto simp: handle_outgoing_shortcut_def Let_def async_translate_def
      split: chat_context.splits option.splits)

lemma shortcut_pattern_accepted:
  assumes "shortcut_pattern U line token body"
  shows "looks_like_lang U token"
proof -
  from assms have ne: "token \<noteq> []" and letter: "ascii_letter (hd token)"
    and rest: "list_all lang_tail_char (tl token)" and len: "length token \<le> 10"
    by (auto simp: shortcut_pattern_def)
  from ne obtain c rest where tok: "token = c # rest" by (cases token) auto
  with letter rest len have "ascii_letter c" "list_all lang_tail_char rest" "length rest \<le> 9"
    by simp_all
  then show ?thesis unfolding tok by (rule token_accepted)
qed

text \<open>
  C10. The token that the shortcut pattern captures passes \<open>looks_like_lang\<close>: it is
  an ASCII letter followed by one to nine ASCII letters, hyphens or underscores. So after
  a match \<^verbatim>\<open>_handle_outgoing_shortcut\<close> never leaves through the branch that rejects the
  token: it returns True. This holds for the match the engine finds and for every other
  way the pattern can match the line.
\<close>

theorem captured_token_is_lang:
  "(shortcut_match U line = Some (target, body) \<longrightarrow>
      looks_like_lang U target \<and> 2 \<le> length target \<and> length target \<le> 10 \<and>
      ascii_letter (hd target) \<and> list_all lang_tail_char (tl target) \<and>
      snd (handle_outgoing_shortcut U p line context)) \<and>
   (shortcut_pattern U line token body' \<longrightarrow> looks_like_lang U token)"
proof (intro conjI impI)
  assume m: "shortcut_match U line = Some (target, body)"
  then show "looks_like_lang U target" by (rule shortcut_match_accepted)
  from m show "snd (handle_outgoing_shortcut U p line context)" by (rule shortcut_match_handled)
  from shortcut_match_token [OF m] obtain c rest where
    "target = c # rest" "ascii_letter c" "rest \<noteq> []" "list_all lang_tail_char rest"
    "length rest \<le> 9"
    by blast
  then show "2 \<le> length target" "length target \<le> 10" "ascii_letter (hd target)"
    "list_all lang_tail_char (tl target)"
    by (cases rest; simp)+
next
  assume "shortcut_pattern U line token body'"
  then show "looks_like_lang U token" by (rule shortcut_pattern_accepted)
qed

lemma match_es_buenos_dias:
  "shortcut_match ascii_only (ustr ''@ES buenos dias'') = Some (ustr ''ES'', ustr ''buenos dias'')"
  by (simp add: shortcut_match_def isspace_def ascii_only_def at_sign_def ascii_letter_def
      ascii_upper_letter_def ascii_lower_letter_def lang_tail_char_def hyphen_def underscore_def
      newline_def Let_def)

lemma pattern_es_buenos_dias:
  "shortcut_pattern ascii_only (ustr ''@ES buenos dias'') (ustr ''ES'') (ustr ''buenos dias'')"
  unfolding shortcut_pattern_def
  by (rule exI [of _ "[]"], rule exI [of _ "ustr '' ''"], rule exI [of _ "[]"])
     (simp add: isspace_def ascii_only_def at_sign_def ascii_letter_def
      ascii_upper_letter_def ascii_lower_letter_def lang_tail_char_def hyphen_def underscore_def
      newline_def)

theorem captured_token_is_lang_witness:
  "shortcut_match ascii_only (ustr ''@ES buenos dias'') = Some (ustr ''ES'', ustr ''buenos dias'') \<and>
   shortcut_pattern ascii_only (ustr ''@ES buenos dias'') (ustr ''ES'') (ustr ''buenos dias'') \<and>
   looks_like_lang ascii_only (ustr ''ES'') \<and>
   snd (handle_outgoing_shortcut ascii_only configured_plugin (ustr ''@ES buenos dias'')
          (Chatroom (ustr ''lobby'')))"
  using captured_token_is_lang [of ascii_only "ustr ''@ES buenos dias''" "ustr ''ES''"
      "ustr ''buenos dias''" configured_plugin "Chatroom (ustr ''lobby'')" "ustr ''ES''"
      "ustr ''buenos dias''"]
    match_es_buenos_dias pattern_es_buenos_dias
  by blast

lemma at_sign_no_space: "\<not> isspace U at_sign"
  by (simp add: isspace_def at_sign_def)

lemma lang_tail_char_no_space: "lang_tail_char c \<Longrightarrow> \<not> isspace U c"
  by (auto simp: lang_tail_char_def isspace_def ascii_letter_def ascii_upper_letter_def
      ascii_lower_letter_def hyphen_def underscore_def)

lemma lang_tail_char_no_newline: "lang_tail_char c \<Longrightarrow> c \<noteq> newline"
  by (auto simp: lang_tail_char_def ascii_letter_def ascii_upper_letter_def
      ascii_lower_letter_def hyphen_def underscore_def newline_def)

lemma takeWhile_take_prefix:
  "takeWhile P (take n xs) = take (length (takeWhile P (take n xs))) xs"
proof -
  have "takeWhile P (take n xs) = take (length (takeWhile P (take n xs))) (take n xs)"
    by (rule takeWhile_eq_take)
  also have "\<dots> = take (min (length (takeWhile P (take n xs))) n) xs"
    by simp
  also have "min (length (takeWhile P (take n xs))) n = length (takeWhile P (take n xs))"
    using length_takeWhile_le [of P "take n xs"] by simp
  finally show ?thesis .
qed

lemma shortcut_match_sound:
  assumes "shortcut_match U line = Some (token, body)"
  shows "shortcut_pattern U line token body"
proof -
  from assms obtain c1 cs where
    dw: "dropWhile (isspace U) line = at_sign # c1 # cs"
    and letter: "ascii_letter c1"
    and tok: "token = c1 # takeWhile lang_tail_char (take 9 cs)"
    and some: "takeWhile lang_tail_char (take 9 cs) \<noteq> []"
    and body: "body = takeWhile (\<lambda>c. c \<noteq> newline)
                 (dropWhile (isspace U)
                   (drop (length (takeWhile lang_tail_char (take 9 cs))) cs))"
    and left: "dropWhile (\<lambda>c. c \<noteq> newline)
                 (dropWhile (isspace U)
                   (drop (length (takeWhile lang_tail_char (take 9 cs))) cs)) = [] \<or>
               dropWhile (\<lambda>c. c \<noteq> newline)
                 (dropWhile (isspace U)
                   (drop (length (takeWhile lang_tail_char (take 9 cs))) cs)) = [newline]"
    by (auto simp: shortcut_match_def Let_def split: list.splits if_splits)
  define f where "f = takeWhile lang_tail_char (take 9 cs)"
  define ws1 where "ws1 = takeWhile (isspace U) line"
  define ws2 where "ws2 = takeWhile (isspace U) (drop (length f) cs)"
  define after where "after = dropWhile (isspace U) (drop (length f) cs)"
  define fin where "fin = dropWhile (\<lambda>c. c \<noteq> newline) after"
  have f_take: "f = take (length f) cs"
    unfolding f_def by (rule takeWhile_take_prefix)
  have "cs = take (length f) cs @ drop (length f) cs" by simp
  with f_take have cs: "cs = f @ drop (length f) cs" by simp
  have rest: "drop (length f) cs = ws2 @ after"
    by (simp add: ws2_def after_def)
  have aft: "after = body @ fin"
    by (simp add: body fin_def after_def f_def)
  have tok': "token = c1 # f"
    by (simp add: tok f_def)
  have whole: "cs = f @ ws2 @ body @ fin"
    by (metis cs rest aft)
  have "line = ws1 @ dropWhile (isspace U) line"
    by (simp add: ws1_def)
  then have "line = ws1 @ at_sign # c1 # cs"
    by (simp only: dw)
  then have split: "line = ws1 @ [at_sign] @ token @ ws2 @ body @ fin"
    by (simp only: whole tok' append_Cons append_Nil)
  have w1: "list_all (isspace U) ws1"
    by (auto simp: ws1_def list_all_iff dest: set_takeWhileD)
  have w2: "list_all (isspace U) ws2"
    by (auto simp: ws2_def list_all_iff dest: set_takeWhileD)
  have flen: "length f \<le> 9"
    using length_takeWhile_le [of lang_tail_char "take 9 cs"] by (simp add: f_def)
  have fall: "list_all lang_tail_char f"
    by (auto simp: f_def list_all_iff dest: set_takeWhileD)
  have fne: "f \<noteq> []" using some by (simp add: f_def)
  have nb: "newline \<notin> set body"
    by (auto simp: body dest: set_takeWhileD)
  have fin: "fin = [] \<or> fin = [newline]"
    using left by (simp add: fin_def after_def f_def)
  from fne have "1 \<le> length f" by (cases f) simp_all
  with split w1 w2 flen fall nb fin letter show ?thesis
    unfolding shortcut_pattern_def tok'
    by (intro exI [of _ ws1] exI [of _ ws2] exI [of _ fin]) simp
qed

lemma dropWhile_body_end:
  assumes "newline \<notin> set b" and "e = [] \<or> e = [newline]"
  shows "dropWhile (\<lambda>c. c \<noteq> newline) (b @ e) = e"
  using assms by (induction b) auto

lemma line_end_after_space:
  assumes "newline \<notin> set b" and "e = [] \<or> e = [newline]"
  shows "dropWhile (\<lambda>c. c \<noteq> newline) (dropWhile (isspace U) (b @ e)) = [] \<or>
         dropWhile (\<lambda>c. c \<noteq> newline) (dropWhile (isspace U) (b @ e)) = [newline]"
  using assms
proof (induction b)
  case Nil
  then show ?case by (cases "isspace U newline") auto
next
  case (Cons x b)
  show ?case
  proof (cases "isspace U x")
    case True
    with Cons show ?thesis by simp
  next
    case False
    from Cons.prems have "dropWhile (\<lambda>c. c \<noteq> newline) ((x # b) @ e) = e"
      by (intro dropWhile_body_end) auto
    with False Cons.prems(2) show ?thesis by auto
  qed
qed

lemma tail_shape_drop:
  assumes "list_all (isspace U) w" and "newline \<notin> set b" and "e = [] \<or> e = [newline]"
    and "list_all lang_tail_char g" and "w @ b @ e = g @ Y"
  shows "\<exists>w' b'. Y = w' @ b' @ e \<and> list_all (isspace U) w' \<and> newline \<notin> set b'"
  using assms
proof (induction g arbitrary: w b)
  case Nil
  then show ?case by auto
next
  case (Cons c g)
  from Cons.prems(4) have pc: "lang_tail_char c" and pg: "list_all lang_tail_char g"
    by simp_all
  show ?case
  proof (cases w)
    case (Cons x w')
    with Cons.prems(1,5) have "isspace U c" by simp
    with pc show ?thesis by (simp add: lang_tail_char_no_space)
  next
    case Nil
    show ?thesis
    proof (cases b)
      case (Cons x b')
      with Nil Cons.prems(5) have eq: "[] @ b' @ e = g @ Y" by simp
      from Cons Cons.prems(2) have nb: "newline \<notin> set b'" by simp
      have "list_all (isspace U) []" by simp
      from Cons.IH [OF this nb Cons.prems(3) pg eq] show ?thesis .
    next
      case Nil
      with \<open>w = []\<close> Cons.prems(5) have "e = c # g @ Y" by simp
      with Cons.prems(3) have "c = newline" by auto
      with lang_tail_char_no_newline [OF pc] show ?thesis by blast
    qed
  qed
qed

lemma takeWhile_take_all:
  assumes "list_all P xs" and "length xs \<le> n"
  shows "takeWhile P (take n (xs @ ys)) = xs @ takeWhile P (take (n - length xs) ys)"
  using assms by (simp add: list_all_iff takeWhile_append2)

lemma shortcut_match_complete:
  assumes "shortcut_pattern U line token body"
  shows "\<exists>token' body'. shortcut_match U line = Some (token', body')"
proof -
  from assms obtain ws1 ws2 fin where
    split: "line = ws1 @ [at_sign] @ token @ ws2 @ body @ fin"
    and w1: "list_all (isspace U) ws1"
    and ne: "token \<noteq> []" and letter: "ascii_letter (hd token)"
    and tl_ok: "list_all lang_tail_char (tl token)"
    and len: "2 \<le> length token" "length token \<le> 10"
    and w2: "list_all (isspace U) ws2"
    and nb: "newline \<notin> set body" and fin: "fin = [] \<or> fin = [newline]"
    unfolding shortcut_pattern_def by blast
  from ne obtain c1 t where tok: "token = c1 # t" by (cases token) auto
  with letter tl_ok len have c1: "ascii_letter c1" and t_ok: "list_all lang_tail_char t"
    and t_len: "length t \<le> 9" and t_ne: "t \<noteq> []"
    by auto
  define X where "X = ws2 @ body @ fin"
  define g where "g = takeWhile lang_tail_char (take (9 - length t) X)"
  define f where "f = takeWhile lang_tail_char (take 9 (t @ X))"
  have dw: "dropWhile (isspace U) line = at_sign # c1 # (t @ X)"
    using w1 by (simp add: split tok X_def list_all_iff dropWhile_append2 at_sign_no_space)
  have f_eq: "f = t @ g"
    unfolding f_def g_def using t_ok t_len by (rule takeWhile_take_all)
  with t_ne have f_ne: "f \<noteq> []" by simp
  have g_ok: "list_all lang_tail_char g"
    by (auto simp: g_def list_all_iff dest: set_takeWhileD)
  have "g = take (length g) X"
    unfolding g_def by (rule takeWhile_take_prefix)
  then have "X = g @ drop (length g) X"
    by (metis append_take_drop_id)
  then have "ws2 @ body @ fin = g @ drop (length g) X"
    by (simp add: X_def [symmetric])
  from tail_shape_drop [OF w2 nb fin g_ok this] obtain w' b' where
    shape: "drop (length g) X = w' @ b' @ fin" and w': "list_all (isspace U) w'"
    and nb': "newline \<notin> set b'"
    by blast
  have rest: "drop (length f) (t @ X) = w' @ b' @ fin"
    by (simp add: f_eq shape)
  have skip: "dropWhile (isspace U) (w' @ b' @ fin) = dropWhile (isspace U) (b' @ fin)"
    using w' by (simp add: list_all_iff dropWhile_append2)
  have ends: "dropWhile (\<lambda>c. c \<noteq> newline) (dropWhile (isspace U) (drop (length f) (t @ X))) = [] \<or>
              dropWhile (\<lambda>c. c \<noteq> newline) (dropWhile (isspace U) (drop (length f) (t @ X)))
                = [newline]"
    unfolding rest skip by (rule line_end_after_space [OF nb' fin])
  from dw c1 f_ne ends show ?thesis
    unfolding shortcut_match_def f_def by (auto simp: Let_def)
qed

lemmas eval_match =
  shortcut_match_def isspace_def ascii_only_def at_sign_def ascii_letter_def
  ascii_upper_letter_def ascii_lower_letter_def lang_tail_char_def hyphen_def underscore_def
  newline_def Let_def

lemma match_es: "shortcut_match ascii_only (ustr ''@ES'') = Some (ustr ''ES'', [])"
  by (simp add: eval_match)

lemma match_hello_world: "shortcut_match ascii_only (ustr ''hello world'') = None"
  by (simp add: eval_match)

lemma strip_buenos_dias:
  "strip ascii_only (ustr ''buenos dias'') = ustr ''buenos dias''"
  "strip ascii_only (ustr ''buenos dias'') \<noteq> []"
  by (simp_all add: strip_def isspace_def ascii_only_def)

lemma shortcut_on_success_text:
  "t \<noteq> [] \<Longrightarrow>
     shortcut_on_success U out (PStr t, detected) = ([out (strip_wrapping_quotes (strip U t))], Inr ())"
  by (simp add: shortcut_on_success_def)

lemma shortcut_on_success_effects:
  "fst (shortcut_on_success U out result) = [] \<or>
   (\<exists>t. fst (shortcut_on_success U out result) = [out t])"
  by (cases result) (auto simp: shortcut_on_success_def split: sum.splits)

lemma shortcut_echo_never_transmits:
  "\<not> list_ex is_transmission (fst (on_success U (ShortcutEchoPublic room target last_user) result))"
  "\<not> list_ex is_transmission (fst (on_success U (ShortcutEchoPrivate user target last_user) result))"
  using shortcut_on_success_effects
          [of U "\<lambda>t. EchoPublic room (shortcut_label target last_user @ t)" result]
        shortcut_on_success_effects
          [of U "\<lambda>t. EchoPrivate user (shortcut_label target last_user @ t)" result]
  by auto

lemma translation_request_eq:
  "lang \<noteq> [] \<Longrightarrow>
     build_request s body (Some lang) (strip U (api_key s)) = translation_request U s body lang"
  by (simp add: build_request_def effective_target_def translation_request_def)

lemma provider_returns_shape:
  assumes "provider_returns respond req tv dv"
  shows "\<exists>kvs first others. respond req = Parsed (PDict kvs) \<and>
           map_of kvs (ustr ''translations'') = Some (PList (PDict first # others)) \<and>
           text_field first = tv \<and> detected_field first = dv"
proof (cases "respond req")
  case (Parsed payload)
  show ?thesis
  proof (cases payload)
    case (PDict kvs)
    show ?thesis
    proof (cases "map_of kvs (ustr ''translations'')")
      case None
      with assms Parsed PDict show ?thesis by (simp add: provider_returns_def)
    next
      case (Some v)
      show ?thesis
      proof (cases v)
        case (PList xs)
        show ?thesis
        proof (cases xs)
          case Nil
          with assms Parsed PDict Some PList show ?thesis by (simp add: provider_returns_def)
        next
          case (Cons x others)
          with assms Parsed PDict Some PList show ?thesis
            by (cases x) (simp_all add: provider_returns_def)
        qed
      qed (use assms Parsed PDict Some in \<open>simp_all add: provider_returns_def\<close>)
    qed
  qed (use assms Parsed in \<open>simp_all add: provider_returns_def\<close>)
qed (use assms in \<open>simp_all add: provider_returns_def\<close>)

lemma provider_returns_detect:
  assumes "provider_returns respond req tv dv"
  shows "\<exists>payload. respond req = Parsed payload \<and> detect_payload payload = Inr (tv, dv)"
proof -
  from provider_returns_shape [OF assms] obtain kvs first others where
    "respond req = Parsed (PDict kvs)"
    "map_of kvs (ustr ''translations'') = Some (PList (PDict first # others))"
    "text_field first = tv" "detected_field first = dv"
    by blast
  with detect_first [of kvs first others] show ?thesis by simp
qed

lemma client_returns:
  assumes "strip U (api_key s) \<noteq> []" and "lang \<noteq> []"
    and "provider_returns respond (translation_request U s body lang) tv dv"
  shows "translate_and_detect U respond s body (Some lang)
           = ([NetCall (translation_request U s body lang)], Inr (tv, dv))"
proof -
  from provider_returns_detect [OF assms(3)] obtain payload where
    "respond (translation_request U s body lang) = Parsed payload"
    "detect_payload payload = Inr (tv, dv)"
    by blast
  with assms(1,2) show ?thesis
    by (simp add: translate_and_detect_def Let_def translation_request_eq)
qed

lemma client_requests:
  assumes "strip U (api_key s) \<noteq> []" and "lang \<noteq> []"
  shows "fst (translate_and_detect U respond s body (Some lang))
           = [NetCall (translation_request U s body lang)]"
  using assms
  by (simp add: translate_and_detect_def Let_def translation_request_eq
      split: http_outcome.splits)

lemma client_effects:
  "fst (translate_and_detect U respond s body lang) = [] \<or>
   (\<exists>req. fst (translate_and_detect U respond s body lang) = [NetCall req])"
  by (simp add: translate_and_detect_def Let_def split: http_outcome.splits)

lemma deliver_callback:
  "deliver d = Some (cb, result) \<Longrightarrow> cb = del_on_success d"
  by (auto simp: deliver_def split: prod.splits if_splits)

lemma delivery_transmits_nothing:
  assumes "\<And>result. \<not> list_ex is_transmission (fst (on_success U (del_on_success d) result))"
  shows "\<not> list_ex transmits (delivery_events U d)"
proof (cases "deliver d")
  case None
  then show ?thesis by (simp add: delivery_events_def)
next
  case (Some call)
  obtain cb result where call: "call = (cb, result)" by (cases call)
  with Some have cb: "cb = del_on_success d" by (simp add: deliver_callback)
  from assms [of result] have "\<forall>e \<in> set (fst (on_success U (del_on_success d) result)).
      \<not> is_transmission e"
    by (simp add: list_ex_iff)
  with Some call cb show ?thesis
    by (auto simp: delivery_events_def list_ex_iff)
qed

lemma thread_transmits_nothing:
  assumes "\<And>result. \<not> list_ex is_transmission (fst (on_success U (task_on_success t) result))"
  shows "\<not> list_ex transmits (thread_events U respond s t)"
proof -
  obtain effs r where
    run: "translate_and_detect U respond s (task_text t) (Some (task_target_lang t)) = (effs, r)"
    by (cases "translate_and_detect U respond s (task_text t) (Some (task_target_lang t))")
  from client_effects [of U respond s "task_text t" "Some (task_target_lang t)"]
  have effs: "effs = [] \<or> (\<exists>req. effs = [NetCall req])"
    unfolding run by simp
  show ?thesis
  proof (cases r)
    case (Inl e)
    with run effs show ?thesis
      by (auto simp: thread_events_def worker_def)
  next
    case (Inr result)
    let ?d = "\<lparr>del_result = result, del_silent = task_silent t,
               del_on_success = task_on_success t\<rparr>"
    from assms have "\<And>res. \<not> list_ex is_transmission (fst (on_success U (del_on_success ?d) res))"
      by simp
    then have "\<not> list_ex transmits (delivery_events U ?d)"
      by (rule delivery_transmits_nothing)
    with Inr run effs show ?thesis
      by (auto simp: thread_events_def worker_def)
  qed
qed

lemma handler_events_start:
  "handler_events U respond s [StartThread t]
     = (MainThread, Did (StartThread t)) # thread_events U respond s t"
  by (simp add: handler_events_def)

lemma thread_events_requests:
  assumes "strip U (api_key s) \<noteq> []" and "task_target_lang t \<noteq> []"
  shows "take 1 (thread_events U respond s t)
           = [(WorkerThread, Did (NetCall
                (translation_request U s (task_text t) (task_target_lang t))))]"
proof -
  obtain effs r where
    run: "translate_and_detect U respond s (task_text t) (Some (task_target_lang t)) = (effs, r)"
    by (cases "translate_and_detect U respond s (task_text t) (Some (task_target_lang t))")
  from client_requests [OF assms, of respond "task_text t"]
  have "effs = [NetCall (translation_request U s (task_text t) (task_target_lang t))]"
    unfolding run by simp
  with run show ?thesis
    by (cases r) (simp_all add: thread_events_def worker_def)
qed

lemma thread_events_completed:
  assumes "strip U (api_key s) \<noteq> []" and "task_target_lang t \<noteq> []"
    and "provider_returns respond (translation_request U s (task_text t) (task_target_lang t)) tv dv"
    and "tv \<noteq> PNone \<or> task_silent t"
  shows "(MainThread, Did (StartThread t)) # thread_events U respond s t
           = completed_trace t (translation_request U s (task_text t) (task_target_lang t))
               (tv, dv) (fst (on_success U (task_on_success t) (tv, dv)))"
  using assms(4) client_returns [OF assms(1,2,3)]
  by (auto simp: thread_events_def worker_def completed_trace_def delivery_events_def deliver_def)


lemma dispatched_requests:
  assumes "effs = [StartThread tk]"
    and "strip U (api_key s) \<noteq> []" and "task_target_lang tk \<noteq> []"
  shows "take 2 (handler_events U respond s effs)
           = [(MainThread, Did (StartThread tk)),
              (WorkerThread, Did (NetCall
                (translation_request U s (task_text tk) (task_target_lang tk))))]"
  using thread_events_requests [OF assms(2,3), of respond]
  by (simp add: assms(1) handler_events_start)

lemma dispatched_completed:
  assumes "effs = [StartThread tk]"
    and "strip U (api_key s) \<noteq> []" and "task_target_lang tk \<noteq> []"
    and "provider_returns respond
           (translation_request U s (task_text tk) (task_target_lang tk)) tv dv"
    and "tv \<noteq> PNone \<or> task_silent tk"
  shows "handler_events U respond s effs
           = completed_trace tk (translation_request U s (task_text tk) (task_target_lang tk))
               (tv, dv) (fst (on_success U (task_on_success tk) (tv, dv)))"
  using thread_events_completed [OF assms(2,3,4,5)]
  by (simp add: assms(1) handler_events_start)

lemma dispatched_transmits_nothing:
  assumes "effs = [StartThread tk]"
    and "\<And>result. \<not> list_ex is_transmission (fst (on_success U (task_on_success tk) result))"
  shows "\<not> list_ex transmits (handler_events U respond s effs)"
  using thread_transmits_nothing [of U tk respond s, OF assms(2)]
  by (simp add: assms(1) handler_events_start)

lemma shortcut_match_target: "shortcut_match U line = Some (target, group2) \<Longrightarrow> target \<noteq> []"
  by (drule shortcut_match_token) auto

lemma shortcut_send_effects:
  assumes "shortcut_match U line = Some (target, group2)" and "strip U group2 \<noteq> []"
  shows "handle_outgoing_shortcut U p line ctx
           = ([StartThread \<lparr>task_text = strip U group2, task_target_lang = target,
                             task_on_success = ShortcutSend ctx, task_silent = False\<rparr>], True)"
proof -
  from assms(1) have "looks_like_lang U target" by (rule shortcut_match_accepted)
  with assms show ?thesis
    by (simp add: handle_outgoing_shortcut_def Let_def async_translate_def)
qed

lemma shortcut_echo_public_effects:
  assumes "shortcut_match U line = Some (target, group2)" and "strip U group2 = []"
    and "last_public_message p room = Some (last_user, last_text)"
  shows "handle_outgoing_shortcut U p line (Chatroom room)
           = ([StartThread \<lparr>task_text = last_text, task_target_lang = target,
                             task_on_success = ShortcutEchoPublic room target last_user,
                             task_silent = False\<rparr>], True)"
proof -
  from assms(1) have "looks_like_lang U target" by (rule shortcut_match_accepted)
  with assms show ?thesis
    by (simp add: handle_outgoing_shortcut_def Let_def async_translate_def)
qed

lemma shortcut_echo_private_effects:
  assumes "shortcut_match U line = Some (target, group2)" and "strip U group2 = []"
    and "last_private_message p user = Some (last_user, last_text)"
  shows "handle_outgoing_shortcut U p line (Private user)
           = ([StartThread \<lparr>task_text = last_text, task_target_lang = target,
                             task_on_success = ShortcutEchoPrivate user target last_user,
                             task_silent = False\<rparr>], True)"
proof -
  from assms(1) have "looks_like_lang U target" by (rule shortcut_match_accepted)
  with assms show ?thesis
    by (simp add: handle_outgoing_shortcut_def Let_def async_translate_def)
qed

text \<open>
  C7. An outgoing line that matches the shortcut pattern with text after the token is
  suppressed (the handler returns \<^verbatim>\<open>zap\<close>) and starts one asynchronous translation: with
  an API key set, the worker thread requests the translation of that text to the
  captured target, whatever the provider answers, and when the provider returns a
  translated text the callback sends it, cleaned, to the room or to the peer. A
  matching line without text, when a last message is remembered for the conversation,
  is suppressed too and starts one translation of the remembered text to the captured
  target, whose result is echoed locally behind the label \<^verbatim>\<open>[TARGET] last_user: \<close>;
  nothing that follows from such a line sends anything to a room or to a peer, whatever
  the provider answers. A line that does not match is not intercepted: the handler
  does nothing and returns \<^verbatim>\<open>None\<close>.
\<close>

theorem shortcut_dispatch:
  "(shortcut_match U line = Some (target, group2) \<and> strip U group2 \<noteq> [] \<longrightarrow>
      outgoing_public_chat_event U p room line
        = ([StartThread \<lparr>task_text = strip U group2, task_target_lang = target,
                          task_on_success = ShortcutSend (Chatroom room), task_silent = False\<rparr>],
           Some Zap) \<and>
      outgoing_private_chat_event U p user line
        = ([StartThread \<lparr>task_text = strip U group2, task_target_lang = target,
                          task_on_success = ShortcutSend (Private user), task_silent = False\<rparr>],
           Some Zap) \<and>
      (strip U (api_key s) \<noteq> [] \<longrightarrow>
         take 2 (handler_events U respond s (fst (outgoing_public_chat_event U p room line)))
           = [(MainThread, Did (StartThread
                 \<lparr>task_text = strip U group2, task_target_lang = target,
                  task_on_success = ShortcutSend (Chatroom room), task_silent = False\<rparr>)),
              (WorkerThread, Did (NetCall (translation_request U s (strip U group2) target)))] \<and>
         take 2 (handler_events U respond s (fst (outgoing_private_chat_event U p user line)))
           = [(MainThread, Did (StartThread
                 \<lparr>task_text = strip U group2, task_target_lang = target,
                  task_on_success = ShortcutSend (Private user), task_silent = False\<rparr>)),
              (WorkerThread, Did (NetCall (translation_request U s (strip U group2) target)))]) \<and>
      (strip U (api_key s) \<noteq> [] \<and> t \<noteq> [] \<and>
       provider_returns respond (translation_request U s (strip U group2) target) (PStr t) dv \<longrightarrow>
         handler_events U respond s (fst (outgoing_public_chat_event U p room line))
           = completed_trace
               \<lparr>task_text = strip U group2, task_target_lang = target,
                task_on_success = ShortcutSend (Chatroom room), task_silent = False\<rparr>
               (translation_request U s (strip U group2) target) (PStr t, dv)
               [SendPublic room (strip_wrapping_quotes (strip U t))] \<and>
         handler_events U respond s (fst (outgoing_private_chat_event U p user line))
           = completed_trace
               \<lparr>task_text = strip U group2, task_target_lang = target,
                task_on_success = ShortcutSend (Private user), task_silent = False\<rparr>
               (translation_request U s (strip U group2) target) (PStr t, dv)
               [SendPrivate user (strip_wrapping_quotes (strip U t))])) \<and>
   (shortcut_match U line = Some (target, group2) \<and> strip U group2 = [] \<and>
    last_public_message p room = Some (last_user, last_text) \<longrightarrow>
      outgoing_public_chat_event U p room line
        = ([StartThread \<lparr>task_text = last_text, task_target_lang = target,
                          task_on_success = ShortcutEchoPublic room target last_user,
                          task_silent = False\<rparr>],
           Some Zap) \<and>
      (strip U (api_key s) \<noteq> [] \<longrightarrow>
         take 2 (handler_events U respond s (fst (outgoing_public_chat_event U p room line)))
           = [(MainThread, Did (StartThread
                 \<lparr>task_text = last_text, task_target_lang = target,
                  task_on_success = ShortcutEchoPublic room target last_user,
                  task_silent = False\<rparr>)),
              (WorkerThread, Did (NetCall (translation_request U s last_text target)))]) \<and>
      (strip U (api_key s) \<noteq> [] \<and> t \<noteq> [] \<and>
       provider_returns respond (translation_request U s last_text target) (PStr t) dv \<longrightarrow>
         handler_events U respond s (fst (outgoing_public_chat_event U p room line))
           = completed_trace
               \<lparr>task_text = last_text, task_target_lang = target,
                task_on_success = ShortcutEchoPublic room target last_user,
                task_silent = False\<rparr>
               (translation_request U s last_text target) (PStr t, dv)
               [EchoPublic room
                  (shortcut_label target last_user @ strip_wrapping_quotes (strip U t))]) \<and>
      \<not> list_ex transmits
          (handler_events U respond s (fst (outgoing_public_chat_event U p room line)))) \<and>
   (shortcut_match U line = Some (target, group2) \<and> strip U group2 = [] \<and>
    last_private_message p user = Some (last_user, last_text) \<longrightarrow>
      outgoing_private_chat_event U p user line
        = ([StartThread \<lparr>task_text = last_text, task_target_lang = target,
                          task_on_success = ShortcutEchoPrivate user target last_user,
                          task_silent = False\<rparr>],
           Some Zap) \<and>
      (strip U (api_key s) \<noteq> [] \<longrightarrow>
         take 2 (handler_events U respond s (fst (outgoing_private_chat_event U p user line)))
           = [(MainThread, Did (StartThread
                 \<lparr>task_text = last_text, task_target_lang = target,
                  task_on_success = ShortcutEchoPrivate user target last_user,
                  task_silent = False\<rparr>)),
              (WorkerThread, Did (NetCall (translation_request U s last_text target)))]) \<and>
      (strip U (api_key s) \<noteq> [] \<and> t \<noteq> [] \<and>
       provider_returns respond (translation_request U s last_text target) (PStr t) dv \<longrightarrow>
         handler_events U respond s (fst (outgoing_private_chat_event U p user line))
           = completed_trace
               \<lparr>task_text = last_text, task_target_lang = target,
                task_on_success = ShortcutEchoPrivate user target last_user,
                task_silent = False\<rparr>
               (translation_request U s last_text target) (PStr t, dv)
               [EchoPrivate user
                  (shortcut_label target last_user @ strip_wrapping_quotes (strip U t))]) \<and>
      \<not> list_ex transmits
          (handler_events U respond s (fst (outgoing_private_chat_event U p user line)))) \<and>
   (shortcut_match U line = None \<longrightarrow>
      outgoing_public_chat_event U p room line = ([], None) \<and>
      outgoing_private_chat_event U p user line = ([], None))"
proof (intro conjI impI)
  assume m: "shortcut_match U line = Some (target, group2) \<and> strip U group2 \<noteq> []"
  then have lang: "target \<noteq> []" by (blast dest: shortcut_match_target)
  let ?pub = "\<lparr>task_text = strip U group2, task_target_lang = target,
                task_on_success = ShortcutSend (Chatroom room), task_silent = False\<rparr>"
  let ?priv = "\<lparr>task_text = strip U group2, task_target_lang = target,
                 task_on_success = ShortcutSend (Private user), task_silent = False\<rparr>"
  from m have run: "\<And>ctx. handle_outgoing_shortcut U p line ctx
      = ([StartThread \<lparr>task_text = strip U group2, task_target_lang = target,
                        task_on_success = ShortcutSend ctx, task_silent = False\<rparr>], True)"
    by (blast intro: shortcut_send_effects)
  show pub: "outgoing_public_chat_event U p room line = ([StartThread ?pub], Some Zap)"
    by (simp add: outgoing_public_chat_event_def run)
  show priv: "outgoing_private_chat_event U p user line = ([StartThread ?priv], Some Zap)"
    by (simp add: outgoing_private_chat_event_def run)
  {
    assume key: "strip U (api_key s) \<noteq> []"
    from lang have "task_target_lang ?pub \<noteq> []" "task_target_lang ?priv \<noteq> []" by simp_all
    from dispatched_requests [OF _ key this(1), of "fst (outgoing_public_chat_event U p room line)"
        respond] pub
    show "take 2 (handler_events U respond s (fst (outgoing_public_chat_event U p room line)))
           = [(MainThread, Did (StartThread ?pub)),
              (WorkerThread, Did (NetCall (translation_request U s (strip U group2) target)))]"
      by simp
    from dispatched_requests [OF _ key \<open>task_target_lang ?priv \<noteq> []\<close>,
        of "fst (outgoing_private_chat_event U p user line)" respond] priv
    show "take 2 (handler_events U respond s (fst (outgoing_private_chat_event U p user line)))
           = [(MainThread, Did (StartThread ?priv)),
              (WorkerThread, Did (NetCall (translation_request U s (strip U group2) target)))]"
      by simp
  }
  {
    assume a: "strip U (api_key s) \<noteq> [] \<and> t \<noteq> [] \<and>
       provider_returns respond (translation_request U s (strip U group2) target) (PStr t) dv"
    then have key: "strip U (api_key s) \<noteq> []" and nonempty: "t \<noteq> []" by simp_all
    from a have ret1: "provider_returns respond
        (translation_request U s (task_text ?pub) (task_target_lang ?pub)) (PStr t) dv"
      and ret2: "provider_returns respond
        (translation_request U s (task_text ?priv) (task_target_lang ?priv)) (PStr t) dv"
      by simp_all
    from lang have l1: "task_target_lang ?pub \<noteq> []" and l2: "task_target_lang ?priv \<noteq> []"
      by simp_all
    have tv: "PStr t \<noteq> PNone \<or> task_silent ?pub" "PStr t \<noteq> PNone \<or> task_silent ?priv"
      by simp_all
    from dispatched_completed [OF _ key l1 ret1 tv(1),
        of "fst (outgoing_public_chat_event U p room line)"] pub nonempty
    show "handler_events U respond s (fst (outgoing_public_chat_event U p room line))
           = completed_trace ?pub (translation_request U s (strip U group2) target) (PStr t, dv)
               [SendPublic room (strip_wrapping_quotes (strip U t))]"
      by (simp add: shortcut_on_success_text)
    from dispatched_completed [OF _ key l2 ret2 tv(2),
        of "fst (outgoing_private_chat_event U p user line)"] priv nonempty
    show "handler_events U respond s (fst (outgoing_private_chat_event U p user line))
           = completed_trace ?priv (translation_request U s (strip U group2) target) (PStr t, dv)
               [SendPrivate user (strip_wrapping_quotes (strip U t))]"
      by (simp add: shortcut_on_success_text)
  }
next
  assume m: "shortcut_match U line = Some (target, group2) \<and> strip U group2 = [] \<and>
    last_public_message p room = Some (last_user, last_text)"
  then have lang: "target \<noteq> []" by (blast dest: shortcut_match_target)
  let ?tk = "\<lparr>task_text = last_text, task_target_lang = target,
               task_on_success = ShortcutEchoPublic room target last_user,
               task_silent = False\<rparr>"
  from m have run: "handle_outgoing_shortcut U p line (Chatroom room) = ([StartThread ?tk], True)"
    by (blast intro: shortcut_echo_public_effects)
  show eff: "outgoing_public_chat_event U p room line = ([StartThread ?tk], Some Zap)"
    by (simp add: outgoing_public_chat_event_def run)
  from lang have l: "task_target_lang ?tk \<noteq> []" by simp
  {
    assume key: "strip U (api_key s) \<noteq> []"
    from dispatched_requests [OF _ key l, of "fst (outgoing_public_chat_event U p room line)"
        respond] eff
    show "take 2 (handler_events U respond s (fst (outgoing_public_chat_event U p room line)))
           = [(MainThread, Did (StartThread ?tk)),
              (WorkerThread, Did (NetCall (translation_request U s last_text target)))]"
      by simp
  }
  {
    assume a: "strip U (api_key s) \<noteq> [] \<and> t \<noteq> [] \<and>
       provider_returns respond (translation_request U s last_text target) (PStr t) dv"
    then have key: "strip U (api_key s) \<noteq> []" and nonempty: "t \<noteq> []" by simp_all
    from a have ret: "provider_returns respond
        (translation_request U s (task_text ?tk) (task_target_lang ?tk)) (PStr t) dv"
      by simp
    have tv: "PStr t \<noteq> PNone \<or> task_silent ?tk" by simp
    from dispatched_completed [OF _ key l ret tv,
        of "fst (outgoing_public_chat_event U p room line)"] eff nonempty
    show "handler_events U respond s (fst (outgoing_public_chat_event U p room line))
           = completed_trace ?tk (translation_request U s last_text target) (PStr t, dv)
               [EchoPublic room
                  (shortcut_label target last_user @ strip_wrapping_quotes (strip U t))]"
      by (simp add: shortcut_on_success_text)
  }
  have "\<And>result. \<not> list_ex is_transmission (fst (on_success U (task_on_success ?tk) result))"
    by (simp add: shortcut_echo_never_transmits del: on_success.simps)
  from dispatched_transmits_nothing [OF _ this,
      of "fst (outgoing_public_chat_event U p room line)" respond s] eff
  show "\<not> list_ex transmits
          (handler_events U respond s (fst (outgoing_public_chat_event U p room line)))"
    by simp
next
  assume m: "shortcut_match U line = Some (target, group2) \<and> strip U group2 = [] \<and>
    last_private_message p user = Some (last_user, last_text)"
  then have lang: "target \<noteq> []" by (blast dest: shortcut_match_target)
  let ?tk = "\<lparr>task_text = last_text, task_target_lang = target,
               task_on_success = ShortcutEchoPrivate user target last_user,
               task_silent = False\<rparr>"
  from m have run: "handle_outgoing_shortcut U p line (Private user) = ([StartThread ?tk], True)"
    by (blast intro: shortcut_echo_private_effects)
  show eff: "outgoing_private_chat_event U p user line = ([StartThread ?tk], Some Zap)"
    by (simp add: outgoing_private_chat_event_def run)
  from lang have l: "task_target_lang ?tk \<noteq> []" by simp
  {
    assume key: "strip U (api_key s) \<noteq> []"
    from dispatched_requests [OF _ key l, of "fst (outgoing_private_chat_event U p user line)"
        respond] eff
    show "take 2 (handler_events U respond s (fst (outgoing_private_chat_event U p user line)))
           = [(MainThread, Did (StartThread ?tk)),
              (WorkerThread, Did (NetCall (translation_request U s last_text target)))]"
      by simp
  }
  {
    assume a: "strip U (api_key s) \<noteq> [] \<and> t \<noteq> [] \<and>
       provider_returns respond (translation_request U s last_text target) (PStr t) dv"
    then have key: "strip U (api_key s) \<noteq> []" and nonempty: "t \<noteq> []" by simp_all
    from a have ret: "provider_returns respond
        (translation_request U s (task_text ?tk) (task_target_lang ?tk)) (PStr t) dv"
      by simp
    have tv: "PStr t \<noteq> PNone \<or> task_silent ?tk" by simp
    from dispatched_completed [OF _ key l ret tv,
        of "fst (outgoing_private_chat_event U p user line)"] eff nonempty
    show "handler_events U respond s (fst (outgoing_private_chat_event U p user line))
           = completed_trace ?tk (translation_request U s last_text target) (PStr t, dv)
               [EchoPrivate user
                  (shortcut_label target last_user @ strip_wrapping_quotes (strip U t))]"
      by (simp add: shortcut_on_success_text)
  }
  have "\<And>result. \<not> list_ex is_transmission (fst (on_success U (task_on_success ?tk) result))"
    by (simp add: shortcut_echo_never_transmits del: on_success.simps)
  from dispatched_transmits_nothing [OF _ this,
      of "fst (outgoing_private_chat_event U p user line)" respond s] eff
  show "\<not> list_ex transmits
          (handler_events U respond s (fst (outgoing_private_chat_event U p user line)))"
    by simp
next
  assume "shortcut_match U line = None"
  then show "outgoing_public_chat_event U p room line = ([], None)"
    "outgoing_private_chat_event U p user line = ([], None)"
    by (simp_all add: outgoing_public_chat_event_def outgoing_private_chat_event_def
        handle_outgoing_shortcut_def)
qed

lemma remembering_plugin_memory:
  "last_public_message remembering_plugin (ustr ''lobby'') = Some (ustr ''ana'', ustr ''hola'')"
  "last_private_message remembering_plugin (ustr ''ana'') = Some (ustr ''ana'', ustr ''hola'')"
  by (simp_all add: remembering_plugin_def incoming_public_chat_notification_def
      incoming_private_chat_notification_def Let_def)

lemma hallo_provider_returns:
  "provider_returns hallo_provider req (PStr (ustr ''Hallo'')) (PStr (ustr ''ES''))"
  by (simp add: provider_returns_def hallo_provider_def hallo_payload_def text_field_def
      detected_field_def)

lemma configured_key: "strip ascii_only (api_key (settings configured_plugin)) \<noteq> []"
  by (simp add: strip_def isspace_def)

lemma clean_hallo: "strip_wrapping_quotes (strip ascii_only (ustr ''Hallo'')) = ustr ''Hallo''"
  by (simp add: strip_wrapping_quotes_eq wrapped_def dquote_def squote_def strip_def isspace_def
      ascii_only_def)

theorem shortcut_dispatch_witness:
  "shortcut_match ascii_only (ustr ''@ES buenos dias'') = Some (ustr ''ES'', ustr ''buenos dias'') \<and>
   outgoing_public_chat_event ascii_only configured_plugin (ustr ''lobby'') (ustr ''@ES buenos dias'')
     = ([StartThread \<lparr>task_text = ustr ''buenos dias'', task_target_lang = ustr ''ES'',
                       task_on_success = ShortcutSend (Chatroom (ustr ''lobby'')),
                       task_silent = False\<rparr>], Some Zap) \<and>
   handler_events ascii_only hallo_provider (settings configured_plugin)
     (fst (outgoing_public_chat_event ascii_only configured_plugin (ustr ''lobby'')
             (ustr ''@ES buenos dias'')))
     = [(MainThread, Did (StartThread
           \<lparr>task_text = ustr ''buenos dias'', task_target_lang = ustr ''ES'',
            task_on_success = ShortcutSend (Chatroom (ustr ''lobby'')), task_silent = False\<rparr>)),
        (WorkerThread, Did (NetCall
           \<lparr>req_auth_key = ustr ''key'', req_text = ustr ''buenos dias'',
            req_target_lang = ustr ''ES'', req_preserve_formatting = True\<rparr>)),
        (WorkerThread, Did (InvokeMainThread
           \<lparr>del_result = (PStr (ustr ''Hallo''), PStr (ustr ''ES'')), del_silent = False,
            del_on_success = ShortcutSend (Chatroom (ustr ''lobby''))\<rparr>)),
        (MainThread, Called (ShortcutSend (Chatroom (ustr ''lobby'')))
           (PStr (ustr ''Hallo''), PStr (ustr ''ES''))),
        (MainThread, Did (SendPublic (ustr ''lobby'') (ustr ''Hallo'')))] \<and>
   take 2 (handler_events ascii_only (\<lambda>req. TransportFailure (ustr ''timed out''))
             (settings configured_plugin)
             (fst (outgoing_public_chat_event ascii_only configured_plugin (ustr ''lobby'')
                     (ustr ''@ES buenos dias''))))
     = [(MainThread, Did (StartThread
           \<lparr>task_text = ustr ''buenos dias'', task_target_lang = ustr ''ES'',
            task_on_success = ShortcutSend (Chatroom (ustr ''lobby'')), task_silent = False\<rparr>)),
        (WorkerThread, Did (NetCall
           \<lparr>req_auth_key = ustr ''key'', req_text = ustr ''buenos dias'',
            req_target_lang = ustr ''ES'', req_preserve_formatting = True\<rparr>))] \<and>
   shortcut_match ascii_only (ustr ''@ES'') = Some (ustr ''ES'', []) \<and>
   outgoing_public_chat_event ascii_only remembering_plugin (ustr ''lobby'') (ustr ''@ES'')
     = ([StartThread \<lparr>task_text = ustr ''hola'', task_target_lang = ustr ''ES'',
                       task_on_success = ShortcutEchoPublic (ustr ''lobby'') (ustr ''ES'') (ustr ''ana''),
                       task_silent = False\<rparr>], Some Zap) \<and>
   handler_events ascii_only hallo_provider (settings configured_plugin)
     (fst (outgoing_public_chat_event ascii_only remembering_plugin (ustr ''lobby'') (ustr ''@ES'')))
     = [(MainThread, Did (StartThread
           \<lparr>task_text = ustr ''hola'', task_target_lang = ustr ''ES'',
            task_on_success = ShortcutEchoPublic (ustr ''lobby'') (ustr ''ES'') (ustr ''ana''),
            task_silent = False\<rparr>)),
        (WorkerThread, Did (NetCall (hola_request (ustr ''ES'')))),
        (WorkerThread, Did (InvokeMainThread
           \<lparr>del_result = (PStr (ustr ''Hallo''), PStr (ustr ''ES'')), del_silent = False,
            del_on_success = ShortcutEchoPublic (ustr ''lobby'') (ustr ''ES'') (ustr ''ana'')\<rparr>)),
        (MainThread, Called (ShortcutEchoPublic (ustr ''lobby'') (ustr ''ES'') (ustr ''ana''))
           (PStr (ustr ''Hallo''), PStr (ustr ''ES''))),
        (MainThread, Did (EchoPublic (ustr ''lobby'') (ustr ''[ES] ana: Hallo'')))] \<and>
   \<not> list_ex transmits
       (handler_events ascii_only hallo_provider (settings configured_plugin)
          (fst (outgoing_public_chat_event ascii_only remembering_plugin (ustr ''lobby'')
                  (ustr ''@ES'')))) \<and>
   outgoing_private_chat_event ascii_only remembering_plugin (ustr ''ana'') (ustr ''@ES'')
     = ([StartThread \<lparr>task_text = ustr ''hola'', task_target_lang = ustr ''ES'',
                       task_on_success = ShortcutEchoPrivate (ustr ''ana'') (ustr ''ES'') (ustr ''ana''),
                       task_silent = False\<rparr>], Some Zap) \<and>
   shortcut_match ascii_only (ustr ''hello world'') = None \<and>
   outgoing_public_chat_event ascii_only configured_plugin (ustr ''lobby'') (ustr ''hello world'')
     = ([], None)"
proof -
  let ?s = "settings configured_plugin"
  have text_after: "shortcut_match ascii_only (ustr ''@ES buenos dias'')
                      = Some (ustr ''ES'', ustr ''buenos dias'') \<and>
                    strip ascii_only (ustr ''buenos dias'') \<noteq> []"
    using match_es_buenos_dias strip_buenos_dias(2) by blast
  have no_text_public: "shortcut_match ascii_only (ustr ''@ES'') = Some (ustr ''ES'', []) \<and>
      strip ascii_only [] = [] \<and>
      last_public_message remembering_plugin (ustr ''lobby'') = Some (ustr ''ana'', ustr ''hola'')"
    using match_es remembering_plugin_memory strip_Nil [of ascii_only] by blast
  have no_text_private: "shortcut_match ascii_only (ustr ''@ES'') = Some (ustr ''ES'', []) \<and>
      strip ascii_only [] = [] \<and>
      last_private_message remembering_plugin (ustr ''ana'') = Some (ustr ''ana'', ustr ''hola'')"
    using match_es remembering_plugin_memory strip_Nil [of ascii_only] by blast
  have returned: "strip ascii_only (api_key ?s) \<noteq> [] \<and> ustr ''Hallo'' \<noteq> [] \<and>
      provider_returns hallo_provider
        (translation_request ascii_only ?s (strip ascii_only (ustr ''buenos dias'')) (ustr ''ES''))
        (PStr (ustr ''Hallo'')) (PStr (ustr ''ES''))"
    using configured_key hallo_provider_returns by simp
  have returned_hola: "strip ascii_only (api_key ?s) \<noteq> [] \<and> ustr ''Hallo'' \<noteq> [] \<and>
      provider_returns hallo_provider
        (translation_request ascii_only ?s (ustr ''hola'') (ustr ''ES''))
        (PStr (ustr ''Hallo'')) (PStr (ustr ''ES''))"
    using configured_key hallo_provider_returns by simp
  have req1: "translation_request ascii_only ?s (ustr ''buenos dias'') (ustr ''ES'')
      = \<lparr>req_auth_key = ustr ''key'', req_text = ustr ''buenos dias'',
         req_target_lang = ustr ''ES'', req_preserve_formatting = True\<rparr>"
    by (simp add: translation_request_def strip_def isspace_def ascii_only_def)
  have req2: "translation_request ascii_only ?s (ustr ''hola'') (ustr ''ES'') = hola_request (ustr ''ES'')"
    by (simp add: translation_request_def hola_request_def strip_def isspace_def)
  have label: "shortcut_label (ustr ''ES'') (ustr ''ana'') @ ustr ''Hallo'' = ustr ''[ES] ana: Hallo''"
    by (simp add: shortcut_label_def)
  note thm1 = shortcut_dispatch [where U = ascii_only and line = "ustr ''@ES buenos dias''"
      and target = "ustr ''ES''" and ?group2.0 = "ustr ''buenos dias''" and p = configured_plugin
      and room = "ustr ''lobby''" and s = "?s" and respond = hallo_provider
      and t = "ustr ''Hallo''" and dv = "PStr (ustr ''ES'')"]
  from thm1 text_after
  have c1: "outgoing_public_chat_event ascii_only configured_plugin (ustr ''lobby'')
              (ustr ''@ES buenos dias'')
     = ([StartThread \<lparr>task_text = ustr ''buenos dias'', task_target_lang = ustr ''ES'',
                       task_on_success = ShortcutSend (Chatroom (ustr ''lobby'')),
                       task_silent = False\<rparr>], Some Zap)"
    by (simp only: strip_buenos_dias(1)) blast
  from thm1 text_after returned
  have "handler_events ascii_only hallo_provider ?s
     (fst (outgoing_public_chat_event ascii_only configured_plugin (ustr ''lobby'')
             (ustr ''@ES buenos dias'')))
     = completed_trace
         \<lparr>task_text = strip ascii_only (ustr ''buenos dias''), task_target_lang = ustr ''ES'',
          task_on_success = ShortcutSend (Chatroom (ustr ''lobby'')), task_silent = False\<rparr>
         (translation_request ascii_only ?s (strip ascii_only (ustr ''buenos dias'')) (ustr ''ES''))
         (PStr (ustr ''Hallo''), PStr (ustr ''ES''))
         [SendPublic (ustr ''lobby'') (strip_wrapping_quotes (strip ascii_only (ustr ''Hallo'')))]"
    by blast
  then have c2: "handler_events ascii_only hallo_provider ?s
     (fst (outgoing_public_chat_event ascii_only configured_plugin (ustr ''lobby'')
             (ustr ''@ES buenos dias'')))
     = [(MainThread, Did (StartThread
           \<lparr>task_text = ustr ''buenos dias'', task_target_lang = ustr ''ES'',
            task_on_success = ShortcutSend (Chatroom (ustr ''lobby'')), task_silent = False\<rparr>)),
        (WorkerThread, Did (NetCall
           \<lparr>req_auth_key = ustr ''key'', req_text = ustr ''buenos dias'',
            req_target_lang = ustr ''ES'', req_preserve_formatting = True\<rparr>)),
        (WorkerThread, Did (InvokeMainThread
           \<lparr>del_result = (PStr (ustr ''Hallo''), PStr (ustr ''ES'')), del_silent = False,
            del_on_success = ShortcutSend (Chatroom (ustr ''lobby''))\<rparr>)),
        (MainThread, Called (ShortcutSend (Chatroom (ustr ''lobby'')))
           (PStr (ustr ''Hallo''), PStr (ustr ''ES''))),
        (MainThread, Did (SendPublic (ustr ''lobby'') (ustr ''Hallo'')))]"
    by (simp only: req1 clean_hallo strip_buenos_dias(1) completed_trace_def task.simps
        list.map append.simps)
  from shortcut_dispatch [where U = ascii_only and line = "ustr ''@ES buenos dias''"
      and target = "ustr ''ES''" and ?group2.0 = "ustr ''buenos dias''" and p = configured_plugin
      and room = "ustr ''lobby''" and s = "?s"
      and respond = "\<lambda>req. TransportFailure (ustr ''timed out'')"] text_after configured_key
  have "take 2 (handler_events ascii_only (\<lambda>req. TransportFailure (ustr ''timed out'')) ?s
             (fst (outgoing_public_chat_event ascii_only configured_plugin (ustr ''lobby'')
                     (ustr ''@ES buenos dias''))))
     = [(MainThread, Did (StartThread
           \<lparr>task_text = strip ascii_only (ustr ''buenos dias''), task_target_lang = ustr ''ES'',
            task_on_success = ShortcutSend (Chatroom (ustr ''lobby'')), task_silent = False\<rparr>)),
        (WorkerThread, Did (NetCall
           (translation_request ascii_only ?s (strip ascii_only (ustr ''buenos dias''))
              (ustr ''ES''))))]"
    by blast
  then have c8: "take 2 (handler_events ascii_only (\<lambda>req. TransportFailure (ustr ''timed out'')) ?s
             (fst (outgoing_public_chat_event ascii_only configured_plugin (ustr ''lobby'')
                     (ustr ''@ES buenos dias''))))
     = [(MainThread, Did (StartThread
           \<lparr>task_text = ustr ''buenos dias'', task_target_lang = ustr ''ES'',
            task_on_success = ShortcutSend (Chatroom (ustr ''lobby'')), task_silent = False\<rparr>)),
        (WorkerThread, Did (NetCall
           \<lparr>req_auth_key = ustr ''key'', req_text = ustr ''buenos dias'',
            req_target_lang = ustr ''ES'', req_preserve_formatting = True\<rparr>))]"
    by (simp only: req1 strip_buenos_dias(1))
  note thm2 = shortcut_dispatch [where U = ascii_only and line = "ustr ''@ES''"
      and target = "ustr ''ES''" and ?group2.0 = "[]" and p = remembering_plugin
      and room = "ustr ''lobby''" and user = "ustr ''ana''" and last_user = "ustr ''ana''"
      and last_text = "ustr ''hola''" and s = "?s" and respond = hallo_provider
      and t = "ustr ''Hallo''" and dv = "PStr (ustr ''ES'')"]
  from thm2 no_text_public no_text_private
  have c3: "outgoing_public_chat_event ascii_only remembering_plugin (ustr ''lobby'') (ustr ''@ES'')
     = ([StartThread \<lparr>task_text = ustr ''hola'', task_target_lang = ustr ''ES'',
                       task_on_success = ShortcutEchoPublic (ustr ''lobby'') (ustr ''ES'') (ustr ''ana''),
                       task_silent = False\<rparr>], Some Zap)"
    and c4: "outgoing_private_chat_event ascii_only remembering_plugin (ustr ''ana'') (ustr ''@ES'')
     = ([StartThread \<lparr>task_text = ustr ''hola'', task_target_lang = ustr ''ES'',
                       task_on_success = ShortcutEchoPrivate (ustr ''ana'') (ustr ''ES'') (ustr ''ana''),
                       task_silent = False\<rparr>], Some Zap)"
    and c5: "\<not> list_ex transmits
       (handler_events ascii_only hallo_provider ?s
          (fst (outgoing_public_chat_event ascii_only remembering_plugin (ustr ''lobby'')
                  (ustr ''@ES''))))"
    by blast+
  from thm2 no_text_public returned_hola
  have "handler_events ascii_only hallo_provider ?s
     (fst (outgoing_public_chat_event ascii_only remembering_plugin (ustr ''lobby'') (ustr ''@ES'')))
     = completed_trace
         \<lparr>task_text = ustr ''hola'', task_target_lang = ustr ''ES'',
          task_on_success = ShortcutEchoPublic (ustr ''lobby'') (ustr ''ES'') (ustr ''ana''),
          task_silent = False\<rparr>
         (translation_request ascii_only ?s (ustr ''hola'') (ustr ''ES''))
         (PStr (ustr ''Hallo''), PStr (ustr ''ES''))
         [EchoPublic (ustr ''lobby'')
            (shortcut_label (ustr ''ES'') (ustr ''ana'')
               @ strip_wrapping_quotes (strip ascii_only (ustr ''Hallo'')))]"
    by blast
  then have c6: "handler_events ascii_only hallo_provider ?s
     (fst (outgoing_public_chat_event ascii_only remembering_plugin (ustr ''lobby'') (ustr ''@ES'')))
     = [(MainThread, Did (StartThread
           \<lparr>task_text = ustr ''hola'', task_target_lang = ustr ''ES'',
            task_on_success = ShortcutEchoPublic (ustr ''lobby'') (ustr ''ES'') (ustr ''ana''),
            task_silent = False\<rparr>)),
        (WorkerThread, Did (NetCall (hola_request (ustr ''ES'')))),
        (WorkerThread, Did (InvokeMainThread
           \<lparr>del_result = (PStr (ustr ''Hallo''), PStr (ustr ''ES'')), del_silent = False,
            del_on_success = ShortcutEchoPublic (ustr ''lobby'') (ustr ''ES'') (ustr ''ana'')\<rparr>)),
        (MainThread, Called (ShortcutEchoPublic (ustr ''lobby'') (ustr ''ES'') (ustr ''ana''))
           (PStr (ustr ''Hallo''), PStr (ustr ''ES''))),
        (MainThread, Did (EchoPublic (ustr ''lobby'') (ustr ''[ES] ana: Hallo'')))]"
    by (simp only: req2 clean_hallo label completed_trace_def task.simps list.map append.simps)
  from shortcut_dispatch [where U = ascii_only and line = "ustr ''hello world''"
      and p = configured_plugin and room = "ustr ''lobby''"] match_hello_world
  have c7: "outgoing_public_chat_event ascii_only configured_plugin (ustr ''lobby'')
              (ustr ''hello world'') = ([], None)"
    by blast
  from c1 c2 c3 c4 c5 c6 c7 c8 match_es_buenos_dias match_es match_hello_world show ?thesis
    by blast
qed

lemma upper_question_mark: "upper U (ustr ''?'') = ustr ''?''"
  by (simp add: upper_def upper_char_def ascii_lower_letter_def)

lemma upper_Nil: "upper U [] = []"
  by (simp add: upper_def)

lemma startswith_Nil: "startswith [] (ustr ''EN'') = False"
  by (simp add: startswith_def)

lemma incoming_on_success_text:
  assumes "t \<noteq> []" and "detected = PNone \<or> detected = PStr d"
  shows "incoming_on_success U echo user line target (PStr t, detected) =
           (if detected_english U detected \<or> strip U t = strip U line then ([], Inr ())
            else ([echo (ustr ''['' @ label_code U detected @ [arrow] @ target @ ustr ''] ''
                          @ user @ ustr '': '' @ t)], Inr ()))"
proof -
  from assms(2) show ?thesis
  proof
    assume "detected = PNone"
    with assms(1) show ?thesis
      by (simp add: incoming_on_success_def english_family_def detected_label_def
          detected_english_def label_code_def incoming_label_def upper_question_mark
          del: ustr_simps)
  next
    assume d: "detected = PStr d"
    show ?thesis
    proof (cases "d = []")
      case True
      with d assms(1) show ?thesis
        by (simp add: incoming_on_success_def english_family_def detected_label_def
            detected_english_def label_code_def incoming_label_def upper_question_mark
            upper_Nil startswith_Nil del: ustr_simps)
    next
      case False
      with d assms(1) show ?thesis
        by (cases "startswith (upper U d) (ustr ''EN'')")
           (simp_all add: incoming_on_success_def english_family_def detected_label_def
            detected_english_def label_code_def incoming_label_def del: ustr_simps)
    qed
  qed
qed

lemma incoming_on_success_effects:
  "fst (incoming_on_success U echo user line target result) = [] \<or>
   (\<exists>t. fst (incoming_on_success U echo user line target result) = [echo t])"
  by (cases result)
     (auto simp: incoming_on_success_def split: sum.splits bool.splits)

lemma incoming_echo_never_transmits:
  "\<not> list_ex is_transmission
       (fst (on_success U (IncomingPublicEcho room user line target) result))"
  "\<not> list_ex is_transmission
       (fst (on_success U (IncomingPrivateEcho user line target) result))"
  using incoming_on_success_effects [of U "EchoPublic room" user line target result]
        incoming_on_success_effects [of U "EchoPrivate user" user line target result]
  by auto

lemma incoming_target_nonempty: "incoming_target s \<noteq> []"
  by (simp add: incoming_target_def)

lemma incoming_on_success_falsy:
  "\<not> truthy tv \<Longrightarrow> incoming_on_success U echo user line target (tv, dv) = ([], Inr ())"
  by (simp add: incoming_on_success_def)

lemma incoming_public_effects:
  assumes "Some user \<noteq> login_username p" and "auto_translate_incoming (settings p)"
  shows "snd (incoming_public_chat_notification p room user line)
       = [StartThread \<lparr>task_text = line, task_target_lang = incoming_target (settings p),
                        task_on_success =
                          IncomingPublicEcho room user line (incoming_target (settings p)),
                        task_silent = True\<rparr>]"
  using assms by (auto simp: incoming_public_chat_notification_def Let_def async_translate_def)

lemma incoming_private_effects:
  assumes "Some user \<noteq> login_username p" and "auto_translate_incoming (settings p)"
  shows "snd (incoming_private_chat_notification p user line)
       = [StartThread \<lparr>task_text = line, task_target_lang = incoming_target (settings p),
                        task_on_success =
                          IncomingPrivateEcho user line (incoming_target (settings p)),
                        task_silent = True\<rparr>]"
  using assms by (auto simp: incoming_private_chat_notification_def Let_def async_translate_def)

text \<open>
  C8, as stated: when the background translation of an incoming line completes, the
  translation is echoed once unless the detected language starts with \<^verbatim>\<open>EN\<close> or the
  translated text equals the line after stripping. For the line \<^verbatim>\<open>hola\<close> of \<^verbatim>\<open>ana\<close> and a
  provider whose first translation has the empty text, detected as \<^verbatim>\<open>ES\<close>, the
  translation completes and the callback is called with \<^verbatim>\<open>("", "ES")\<close>; the detected
  language does not start with \<^verbatim>\<open>EN\<close> and the empty text differs from the stripped line,
  yet nothing is echoed: the callback returns at \<^verbatim>\<open>if not translated\<close>.
\<close>

theorem empty_translation_not_echoed:
  "Some (ustr ''ana'') \<noteq> login_username configured_plugin \<and>
   auto_translate_incoming (settings configured_plugin) \<and>
   handler_events ascii_only empty_text_provider (settings configured_plugin)
     (snd (incoming_public_chat_notification configured_plugin (ustr ''lobby'') (ustr ''ana'')
             (ustr ''hola'')))
     = [(MainThread, Did (StartThread hola_task)),
        (WorkerThread, Did (NetCall (hola_request (ustr ''EN-GB'')))),
        (WorkerThread, Did (InvokeMainThread
           \<lparr>del_result = (PStr [], PStr (ustr ''ES'')), del_silent = True,
            del_on_success = task_on_success hola_task\<rparr>)),
        (MainThread, Called (task_on_success hola_task) (PStr [], PStr (ustr ''ES'')))] \<and>
   \<not> startswith (upper ascii_only (ustr ''ES'')) (ustr ''EN'') \<and>
   strip ascii_only [] \<noteq> strip ascii_only (ustr ''hola'')"
  by (simp add: incoming_public_chat_notification_def incoming_target_def async_translate_def
      handler_events_def thread_events_def worker_def delivery_events_def deliver_def
      incoming_on_success_def hola_task_def hola_request_def
      empty_text_provider_def empty_text_payload_def eval_client eval_strings)

text \<open>
  C8, amended. An incoming line of another user, with auto-translate on, starts one
  silent translation of the line to the incoming target. When the provider returns a
  translated text that is not empty (the detected language a string or absent), the
  callback echoes nothing if the detected language starts with \<^verbatim>\<open>EN\<close> in any case or if
  the translated text and the line are equal after stripping; otherwise it echoes once,
  locally, the label \<^verbatim>\<open>[DETECTED-arrow-TARGET] sender: \<close> followed by the translated text,
  with \<^verbatim>\<open>?\<close> for the code when nothing was detected. When the provider returns an empty
  or absent text, the callback is called and echoes nothing. Whatever the provider
  answers, nothing that follows from the line sends anything to a room or to a peer.
\<close>

theorem auto_translate_echo:
  assumes "Some user \<noteq> login_username p" and "auto_translate_incoming (settings p)"
  shows
    "snd (incoming_public_chat_notification p room user line)
       = [StartThread \<lparr>task_text = line, task_target_lang = incoming_target (settings p),
                        task_on_success =
                          IncomingPublicEcho room user line (incoming_target (settings p)),
                        task_silent = True\<rparr>] \<and>
     snd (incoming_private_chat_notification p user line)
       = [StartThread \<lparr>task_text = line, task_target_lang = incoming_target (settings p),
                        task_on_success =
                          IncomingPrivateEcho user line (incoming_target (settings p)),
                        task_silent = True\<rparr>] \<and>
     (strip U (api_key s) \<noteq> [] \<and> t \<noteq> [] \<and> (dv = PNone \<or> dv = PStr d) \<and>
      provider_returns respond (translation_request U s line (incoming_target (settings p)))
        (PStr t) dv \<longrightarrow>
        handler_events U respond s (snd (incoming_public_chat_notification p room user line))
          = completed_trace
              \<lparr>task_text = line, task_target_lang = incoming_target (settings p),
               task_on_success =
                 IncomingPublicEcho room user line (incoming_target (settings p)),
               task_silent = True\<rparr>
              (translation_request U s line (incoming_target (settings p))) (PStr t, dv)
              (if detected_english U dv \<or> strip U t = strip U line then []
               else [EchoPublic room
                       (ustr ''['' @ label_code U dv @ [arrow] @ incoming_target (settings p)
                          @ ustr ''] '' @ user @ ustr '': '' @ t)]) \<and>
        handler_events U respond s (snd (incoming_private_chat_notification p user line))
          = completed_trace
              \<lparr>task_text = line, task_target_lang = incoming_target (settings p),
               task_on_success =
                 IncomingPrivateEcho user line (incoming_target (settings p)),
               task_silent = True\<rparr>
              (translation_request U s line (incoming_target (settings p))) (PStr t, dv)
              (if detected_english U dv \<or> strip U t = strip U line then []
               else [EchoPrivate user
                       (ustr ''['' @ label_code U dv @ [arrow] @ incoming_target (settings p)
                          @ ustr ''] '' @ user @ ustr '': '' @ t)])) \<and>
     (strip U (api_key s) \<noteq> [] \<and> \<not> truthy tv \<and>
      provider_returns respond (translation_request U s line (incoming_target (settings p)))
        tv dv \<longrightarrow>
        handler_events U respond s (snd (incoming_public_chat_notification p room user line))
          = completed_trace
              \<lparr>task_text = line, task_target_lang = incoming_target (settings p),
               task_on_success =
                 IncomingPublicEcho room user line (incoming_target (settings p)),
               task_silent = True\<rparr>
              (translation_request U s line (incoming_target (settings p))) (tv, dv) [] \<and>
        handler_events U respond s (snd (incoming_private_chat_notification p user line))
          = completed_trace
              \<lparr>task_text = line, task_target_lang = incoming_target (settings p),
               task_on_success =
                 IncomingPrivateEcho user line (incoming_target (settings p)),
               task_silent = True\<rparr>
              (translation_request U s line (incoming_target (settings p))) (tv, dv) []) \<and>
     \<not> list_ex transmits
         (handler_events U respond s (snd (incoming_public_chat_notification p room user line))) \<and>
     \<not> list_ex transmits
         (handler_events U respond s (snd (incoming_private_chat_notification p user line)))"
proof (intro conjI impI)
  let ?target = "incoming_target (settings p)"
  let ?pub = "\<lparr>task_text = line, task_target_lang = ?target,
                task_on_success = IncomingPublicEcho room user line ?target,
                task_silent = True\<rparr>"
  let ?priv = "\<lparr>task_text = line, task_target_lang = ?target,
                 task_on_success = IncomingPrivateEcho user line ?target,
                 task_silent = True\<rparr>"
  show pub: "snd (incoming_public_chat_notification p room user line) = [StartThread ?pub]"
    using assms by (rule incoming_public_effects)
  show priv: "snd (incoming_private_chat_notification p user line) = [StartThread ?priv]"
    using assms by (rule incoming_private_effects)
  have l1: "task_target_lang ?pub \<noteq> []" and l2: "task_target_lang ?priv \<noteq> []"
    by (simp_all add: incoming_target_nonempty)
  have silent: "\<And>v. v \<noteq> PNone \<or> task_silent ?pub" "\<And>v. v \<noteq> PNone \<or> task_silent ?priv"
    by simp_all
  {
    assume a: "strip U (api_key s) \<noteq> [] \<and> t \<noteq> [] \<and> (dv = PNone \<or> dv = PStr d) \<and>
      provider_returns respond (translation_request U s line ?target) (PStr t) dv"
    then have key: "strip U (api_key s) \<noteq> []" and nonempty: "t \<noteq> []"
      and detected: "dv = PNone \<or> dv = PStr d"
      by simp_all
    from a have ret1: "provider_returns respond
        (translation_request U s (task_text ?pub) (task_target_lang ?pub)) (PStr t) dv"
      and ret2: "provider_returns respond
        (translation_request U s (task_text ?priv) (task_target_lang ?priv)) (PStr t) dv"
      by simp_all
    from dispatched_completed [OF pub key l1 ret1 silent(1)]
    show "handler_events U respond s (snd (incoming_public_chat_notification p room user line))
          = completed_trace ?pub (translation_request U s line ?target) (PStr t, dv)
              (if detected_english U dv \<or> strip U t = strip U line then []
               else [EchoPublic room
                       (ustr ''['' @ label_code U dv @ [arrow] @ ?target
                          @ ustr ''] '' @ user @ ustr '': '' @ t)])"
      by (simp add: incoming_on_success_text [OF nonempty detected] del: ustr_simps)
    from dispatched_completed [OF priv key l2 ret2 silent(2)]
    show "handler_events U respond s (snd (incoming_private_chat_notification p user line))
          = completed_trace ?priv (translation_request U s line ?target) (PStr t, dv)
              (if detected_english U dv \<or> strip U t = strip U line then []
               else [EchoPrivate user
                       (ustr ''['' @ label_code U dv @ [arrow] @ ?target
                          @ ustr ''] '' @ user @ ustr '': '' @ t)])"
      by (simp add: incoming_on_success_text [OF nonempty detected] del: ustr_simps)
  }
  {
    assume a: "strip U (api_key s) \<noteq> [] \<and> \<not> truthy tv \<and>
      provider_returns respond (translation_request U s line ?target) tv dv"
    then have key: "strip U (api_key s) \<noteq> []" and falsy: "\<not> truthy tv"
      by simp_all
    from a have ret1: "provider_returns respond
        (translation_request U s (task_text ?pub) (task_target_lang ?pub)) tv dv"
      and ret2: "provider_returns respond
        (translation_request U s (task_text ?priv) (task_target_lang ?priv)) tv dv"
      by simp_all
    from dispatched_completed [OF pub key l1 ret1 silent(1)]
    show "handler_events U respond s (snd (incoming_public_chat_notification p room user line))
          = completed_trace ?pub (translation_request U s line ?target) (tv, dv) []"
      by (simp add: incoming_on_success_falsy [OF falsy])
    from dispatched_completed [OF priv key l2 ret2 silent(2)]
    show "handler_events U respond s (snd (incoming_private_chat_notification p user line))
          = completed_trace ?priv (translation_request U s line ?target) (tv, dv) []"
      by (simp add: incoming_on_success_falsy [OF falsy])
  }
  have "\<And>result. \<not> list_ex is_transmission (fst (on_success U (task_on_success ?pub) result))"
    by (simp add: incoming_echo_never_transmits del: on_success.simps)
  from dispatched_transmits_nothing [OF pub this]
  show "\<not> list_ex transmits
         (handler_events U respond s (snd (incoming_public_chat_notification p room user line)))" .
  have "\<And>result. \<not> list_ex is_transmission (fst (on_success U (task_on_success ?priv) result))"
    by (simp add: incoming_echo_never_transmits del: on_success.simps)
  from dispatched_transmits_nothing [OF priv this]
  show "\<not> list_ex transmits
         (handler_events U respond s (snd (incoming_private_chat_notification p user line)))" .
qed

theorem auto_translate_echo_witness:
  "Some (ustr ''ana'') \<noteq> login_username configured_plugin \<and>
   auto_translate_incoming (settings configured_plugin) \<and>
   snd (incoming_public_chat_notification configured_plugin (ustr ''lobby'') (ustr ''ana'')
          (ustr ''hola''))
     = [StartThread hola_task] \<and>
   handler_events ascii_only hallo_provider (settings configured_plugin)
     (snd (incoming_public_chat_notification configured_plugin (ustr ''lobby'') (ustr ''ana'')
             (ustr ''hola'')))
     = [(MainThread, Did (StartThread hola_task)),
        (WorkerThread, Did (NetCall (hola_request (ustr ''EN-GB'')))),
        (WorkerThread, Did (InvokeMainThread
           \<lparr>del_result = (PStr (ustr ''Hallo''), PStr (ustr ''ES'')), del_silent = True,
            del_on_success = task_on_success hola_task\<rparr>)),
        (MainThread, Called (task_on_success hola_task) (PStr (ustr ''Hallo''), PStr (ustr ''ES''))),
        (MainThread, Did (EchoPublic (ustr ''lobby'')
           (ustr ''[ES'' @ [arrow] @ ustr ''EN-GB] ana: Hallo'')))] \<and>
   handler_events ascii_only
     (\<lambda>req. Parsed (PDict [(ustr ''translations'',
                              PList [PDict [(ustr ''text'', PStr (ustr ''Hallo''))]])]))
     (settings configured_plugin)
     (snd (incoming_public_chat_notification configured_plugin (ustr ''lobby'') (ustr ''ana'')
             (ustr ''hola'')))
     = [(MainThread, Did (StartThread hola_task)),
        (WorkerThread, Did (NetCall (hola_request (ustr ''EN-GB'')))),
        (WorkerThread, Did (InvokeMainThread
           \<lparr>del_result = (PStr (ustr ''Hallo''), PNone), del_silent = True,
            del_on_success = task_on_success hola_task\<rparr>)),
        (MainThread, Called (task_on_success hola_task) (PStr (ustr ''Hallo''), PNone)),
        (MainThread, Did (EchoPublic (ustr ''lobby'')
           (ustr ''[?'' @ [arrow] @ ustr ''EN-GB] ana: Hallo'')))] \<and>
   handler_events ascii_only
     (\<lambda>req. Parsed (PDict [(ustr ''translations'',
                              PList [PDict [(ustr ''text'', PStr (ustr ''hello'')),
                                            (ustr ''detected_source_language'',
                                             PStr (ustr ''en-us''))]])]))
     (settings configured_plugin)
     (snd (incoming_public_chat_notification configured_plugin (ustr ''lobby'') (ustr ''ana'')
             (ustr ''hola'')))
     = [(MainThread, Did (StartThread hola_task)),
        (WorkerThread, Did (NetCall (hola_request (ustr ''EN-GB'')))),
        (WorkerThread, Did (InvokeMainThread
           \<lparr>del_result = (PStr (ustr ''hello''), PStr (ustr ''en-us'')), del_silent = True,
            del_on_success = task_on_success hola_task\<rparr>)),
        (MainThread, Called (task_on_success hola_task)
           (PStr (ustr ''hello''), PStr (ustr ''en-us'')))] \<and>
   handler_events ascii_only
     (\<lambda>req. Parsed (PDict [(ustr ''translations'',
                              PList [PDict [(ustr ''text'', PStr (ustr '' hola '')),
                                            (ustr ''detected_source_language'',
                                             PStr (ustr ''ES''))]])]))
     (settings configured_plugin)
     (snd (incoming_public_chat_notification configured_plugin (ustr ''lobby'') (ustr ''ana'')
             (ustr ''hola'')))
     = [(MainThread, Did (StartThread hola_task)),
        (WorkerThread, Did (NetCall (hola_request (ustr ''EN-GB'')))),
        (WorkerThread, Did (InvokeMainThread
           \<lparr>del_result = (PStr (ustr '' hola ''), PStr (ustr ''ES'')), del_silent = True,
            del_on_success = task_on_success hola_task\<rparr>)),
        (MainThread, Called (task_on_success hola_task)
           (PStr (ustr '' hola ''), PStr (ustr ''ES'')))] \<and>
   handler_events ascii_only null_text_provider (settings configured_plugin)
     (snd (incoming_public_chat_notification configured_plugin (ustr ''lobby'') (ustr ''ana'')
             (ustr ''hola'')))
     = [(MainThread, Did (StartThread hola_task)),
        (WorkerThread, Did (NetCall (hola_request (ustr ''EN-GB'')))),
        (WorkerThread, Did (InvokeMainThread
           \<lparr>del_result = (PNone, PStr (ustr ''EN'')), del_silent = True,
            del_on_success = task_on_success hola_task\<rparr>)),
        (MainThread, Called (task_on_success hola_task) (PNone, PStr (ustr ''EN'')))] \<and>
   handler_events ascii_only hallo_provider (settings configured_plugin)
     (snd (incoming_private_chat_notification configured_plugin (ustr ''ana'') (ustr ''hola'')))
     = [(MainThread, Did (StartThread
           \<lparr>task_text = ustr ''hola'', task_target_lang = ustr ''EN-GB'',
            task_on_success = IncomingPrivateEcho (ustr ''ana'') (ustr ''hola'') (ustr ''EN-GB''),
            task_silent = True\<rparr>)),
        (WorkerThread, Did (NetCall (hola_request (ustr ''EN-GB'')))),
        (WorkerThread, Did (InvokeMainThread
           \<lparr>del_result = (PStr (ustr ''Hallo''), PStr (ustr ''ES'')), del_silent = True,
            del_on_success =
              IncomingPrivateEcho (ustr ''ana'') (ustr ''hola'') (ustr ''EN-GB'')\<rparr>)),
        (MainThread, Called (IncomingPrivateEcho (ustr ''ana'') (ustr ''hola'') (ustr ''EN-GB''))
           (PStr (ustr ''Hallo''), PStr (ustr ''ES''))),
        (MainThread, Did (EchoPrivate (ustr ''ana'')
           (ustr ''[ES'' @ [arrow] @ ustr ''EN-GB] ana: Hallo'')))] \<and>
   \<not> list_ex transmits
       (handler_events ascii_only hallo_provider (settings configured_plugin)
          (snd (incoming_public_chat_notification configured_plugin (ustr ''lobby'')
                  (ustr ''ana'') (ustr ''hola''))))"
proof -
  let ?s = "settings configured_plugin"
  let ?undetected = "\<lambda>req::request. Parsed (PDict [(ustr ''translations'',
                              PList [PDict [(ustr ''text'', PStr (ustr ''Hallo''))]])])"
  let ?english = "\<lambda>req::request. Parsed (PDict [(ustr ''translations'',
                              PList [PDict [(ustr ''text'', PStr (ustr ''hello'')),
                                            (ustr ''detected_source_language'',
                                             PStr (ustr ''en-us''))]])])"
  let ?same = "\<lambda>req::request. Parsed (PDict [(ustr ''translations'',
                              PList [PDict [(ustr ''text'', PStr (ustr '' hola '')),
                                            (ustr ''detected_source_language'',
                                             PStr (ustr ''ES''))]])])"
  let ?events = "\<lambda>respond. handler_events ascii_only respond ?s
     (snd (incoming_public_chat_notification configured_plugin (ustr ''lobby'') (ustr ''ana'')
             (ustr ''hola'')))"
  have other: "Some (ustr ''ana'') \<noteq> login_username configured_plugin"
    by simp
  have on: "auto_translate_incoming (settings configured_plugin)"
    by simp
  have r1: "strip ascii_only (api_key ?s) \<noteq> [] \<and> ustr ''Hallo'' \<noteq> [] \<and>
      (PStr (ustr ''ES'') = PNone \<or> PStr (ustr ''ES'') = PStr (ustr ''ES'')) \<and>
      provider_returns hallo_provider
        (translation_request ascii_only ?s (ustr ''hola'') (incoming_target ?s))
        (PStr (ustr ''Hallo'')) (PStr (ustr ''ES''))"
    using configured_key hallo_provider_returns by simp
  have r2: "strip ascii_only (api_key ?s) \<noteq> [] \<and> ustr ''Hallo'' \<noteq> [] \<and>
      (PNone = PNone \<or> PNone = PStr []) \<and>
      provider_returns ?undetected
        (translation_request ascii_only ?s (ustr ''hola'') (incoming_target ?s))
        (PStr (ustr ''Hallo'')) PNone"
    using configured_key
    by (simp add: provider_returns_def text_field_def detected_field_def)
  have r3: "strip ascii_only (api_key ?s) \<noteq> [] \<and> ustr ''hello'' \<noteq> [] \<and>
      (PStr (ustr ''en-us'') = PNone \<or> PStr (ustr ''en-us'') = PStr (ustr ''en-us'')) \<and>
      provider_returns ?english
        (translation_request ascii_only ?s (ustr ''hola'') (incoming_target ?s))
        (PStr (ustr ''hello'')) (PStr (ustr ''en-us''))"
    using configured_key
    by (simp add: provider_returns_def text_field_def detected_field_def)
  have r4: "strip ascii_only (api_key ?s) \<noteq> [] \<and> ustr '' hola '' \<noteq> [] \<and>
      (PStr (ustr ''ES'') = PNone \<or> PStr (ustr ''ES'') = PStr (ustr ''ES'')) \<and>
      provider_returns ?same
        (translation_request ascii_only ?s (ustr ''hola'') (incoming_target ?s))
        (PStr (ustr '' hola '')) (PStr (ustr ''ES''))"
    using configured_key
    by (simp add: provider_returns_def text_field_def detected_field_def)
  have r5: "strip ascii_only (api_key ?s) \<noteq> [] \<and> \<not> truthy PNone \<and>
      provider_returns null_text_provider
        (translation_request ascii_only ?s (ustr ''hola'') (incoming_target ?s))
        PNone (PStr (ustr ''EN''))"
    using configured_key
    by (simp add: provider_returns_def null_text_provider_def null_text_payload_def
        text_field_def detected_field_def)
  note evals = incoming_target_def translation_request_def hola_request_def hola_task_def
    completed_trace_def detected_english_def label_code_def strip_def isspace_def eval_strings
  note thm1 = auto_translate_echo [OF other on, where room = "ustr ''lobby''" and line = "ustr ''hola''"
      and U = ascii_only and s = "?s" and respond = hallo_provider and t = "ustr ''Hallo''"
      and dv = "PStr (ustr ''ES'')" and d = "ustr ''ES''" and tv = PNone]
  from thm1
  have "snd (incoming_public_chat_notification configured_plugin (ustr ''lobby'')
               (ustr ''ana'') (ustr ''hola'')) = [StartThread \<lparr>task_text = ustr ''hola'', task_target_lang = incoming_target ?s,
             task_on_success =
               IncomingPublicEcho (ustr ''lobby'') (ustr ''ana'') (ustr ''hola'') (incoming_target ?s),
             task_silent = True\<rparr>]"
    by blast
  then have c0: "snd (incoming_public_chat_notification configured_plugin (ustr ''lobby'')
                   (ustr ''ana'') (ustr ''hola'')) = [StartThread hola_task]"
    by (simp add: evals)
  from thm1 have c6: "\<not> list_ex transmits (?events hallo_provider)"
    by blast
  from thm1 r1
  have "?events hallo_provider
     = completed_trace
         \<lparr>task_text = ustr ''hola'', task_target_lang = incoming_target ?s,
           task_on_success =
             IncomingPublicEcho (ustr ''lobby'') (ustr ''ana'') (ustr ''hola'') (incoming_target ?s),
           task_silent = True\<rparr>
         (translation_request ascii_only ?s (ustr ''hola'') (incoming_target ?s)) (PStr (ustr ''Hallo''), PStr (ustr ''ES''))
         (if detected_english ascii_only (PStr (ustr ''ES'')) \<or>
              strip ascii_only (ustr ''Hallo'') = strip ascii_only (ustr ''hola'') then []
           else [EchoPublic (ustr ''lobby'')
                   (ustr ''['' @ label_code ascii_only (PStr (ustr ''ES'')) @ [arrow] @ incoming_target ?s
                      @ ustr ''] '' @ ustr ''ana'' @ ustr '': '' @ ustr ''Hallo'')])"
    by blast
  then have c1: "?events hallo_provider
     = [(MainThread, Did (StartThread hola_task)),
        (WorkerThread, Did (NetCall (hola_request (ustr ''EN-GB'')))),
        (WorkerThread, Did (InvokeMainThread
           \<lparr>del_result = (PStr (ustr ''Hallo''), PStr (ustr ''ES'')), del_silent = True,
            del_on_success = task_on_success hola_task\<rparr>)),
        (MainThread, Called (task_on_success hola_task) (PStr (ustr ''Hallo''), PStr (ustr ''ES''))),
        (MainThread, Did (EchoPublic (ustr ''lobby'')
           (ustr ''[ES'' @ [arrow] @ ustr ''EN-GB] ana: Hallo'')))]"
    by (simp add: evals)
  from thm1 r1
  have "handler_events ascii_only hallo_provider ?s
     (snd (incoming_private_chat_notification configured_plugin (ustr ''ana'') (ustr ''hola'')))
     = completed_trace
         \<lparr>task_text = ustr ''hola'', task_target_lang = incoming_target ?s,
           task_on_success =
             IncomingPrivateEcho (ustr ''ana'') (ustr ''hola'') (incoming_target ?s),
           task_silent = True\<rparr>
         (translation_request ascii_only ?s (ustr ''hola'') (incoming_target ?s))
         (PStr (ustr ''Hallo''), PStr (ustr ''ES''))
         (if detected_english ascii_only (PStr (ustr ''ES'')) \<or>
              strip ascii_only (ustr ''Hallo'') = strip ascii_only (ustr ''hola'') then []
           else [EchoPrivate (ustr ''ana'')
                   (ustr ''['' @ label_code ascii_only (PStr (ustr ''ES'')) @ [arrow]
                      @ incoming_target ?s @ ustr ''] '' @ ustr ''ana'' @ ustr '': ''
                      @ ustr ''Hallo'')])"
    by blast
  then have c7: "handler_events ascii_only hallo_provider ?s
     (snd (incoming_private_chat_notification configured_plugin (ustr ''ana'') (ustr ''hola'')))
     = [(MainThread, Did (StartThread
           \<lparr>task_text = ustr ''hola'', task_target_lang = ustr ''EN-GB'',
            task_on_success = IncomingPrivateEcho (ustr ''ana'') (ustr ''hola'') (ustr ''EN-GB''),
            task_silent = True\<rparr>)),
        (WorkerThread, Did (NetCall (hola_request (ustr ''EN-GB'')))),
        (WorkerThread, Did (InvokeMainThread
           \<lparr>del_result = (PStr (ustr ''Hallo''), PStr (ustr ''ES'')), del_silent = True,
            del_on_success =
              IncomingPrivateEcho (ustr ''ana'') (ustr ''hola'') (ustr ''EN-GB'')\<rparr>)),
        (MainThread, Called (IncomingPrivateEcho (ustr ''ana'') (ustr ''hola'') (ustr ''EN-GB''))
           (PStr (ustr ''Hallo''), PStr (ustr ''ES''))),
        (MainThread, Did (EchoPrivate (ustr ''ana'')
           (ustr ''[ES'' @ [arrow] @ ustr ''EN-GB] ana: Hallo'')))]"
    by (simp add: evals)
  from auto_translate_echo [OF other on, where room = "ustr ''lobby''" and line = "ustr ''hola''"
      and U = ascii_only and s = "?s" and respond = "?undetected" and t = "ustr ''Hallo''"
      and dv = PNone and d = "[]" and tv = PNone] r2
  have "?events ?undetected
     = completed_trace
         \<lparr>task_text = ustr ''hola'', task_target_lang = incoming_target ?s,
           task_on_success =
             IncomingPublicEcho (ustr ''lobby'') (ustr ''ana'') (ustr ''hola'') (incoming_target ?s),
           task_silent = True\<rparr>
         (translation_request ascii_only ?s (ustr ''hola'') (incoming_target ?s)) (PStr (ustr ''Hallo''), PNone)
         (if detected_english ascii_only PNone \<or>
              strip ascii_only (ustr ''Hallo'') = strip ascii_only (ustr ''hola'') then []
           else [EchoPublic (ustr ''lobby'')
                   (ustr ''['' @ label_code ascii_only PNone @ [arrow] @ incoming_target ?s
                      @ ustr ''] '' @ ustr ''ana'' @ ustr '': '' @ ustr ''Hallo'')])"
    by blast
  then have c2: "?events ?undetected
     = [(MainThread, Did (StartThread hola_task)),
        (WorkerThread, Did (NetCall (hola_request (ustr ''EN-GB'')))),
        (WorkerThread, Did (InvokeMainThread
           \<lparr>del_result = (PStr (ustr ''Hallo''), PNone), del_silent = True,
            del_on_success = task_on_success hola_task\<rparr>)),
        (MainThread, Called (task_on_success hola_task) (PStr (ustr ''Hallo''), PNone)),
        (MainThread, Did (EchoPublic (ustr ''lobby'')
           (ustr ''[?'' @ [arrow] @ ustr ''EN-GB] ana: Hallo'')))]"
    by (simp add: evals)
  from auto_translate_echo [OF other on, where room = "ustr ''lobby''" and line = "ustr ''hola''"
      and U = ascii_only and s = "?s" and respond = "?english" and t = "ustr ''hello''"
      and dv = "PStr (ustr ''en-us'')" and d = "ustr ''en-us''" and tv = PNone] r3
  have "?events ?english
     = completed_trace
         \<lparr>task_text = ustr ''hola'', task_target_lang = incoming_target ?s,
           task_on_success =
             IncomingPublicEcho (ustr ''lobby'') (ustr ''ana'') (ustr ''hola'') (incoming_target ?s),
           task_silent = True\<rparr>
         (translation_request ascii_only ?s (ustr ''hola'') (incoming_target ?s)) (PStr (ustr ''hello''), PStr (ustr ''en-us''))
         (if detected_english ascii_only (PStr (ustr ''en-us'')) \<or>
              strip ascii_only (ustr ''hello'') = strip ascii_only (ustr ''hola'') then []
           else [EchoPublic (ustr ''lobby'')
                   (ustr ''['' @ label_code ascii_only (PStr (ustr ''en-us'')) @ [arrow] @ incoming_target ?s
                      @ ustr ''] '' @ ustr ''ana'' @ ustr '': '' @ ustr ''hello'')])"
    by blast
  then have c3: "?events ?english
     = [(MainThread, Did (StartThread hola_task)),
        (WorkerThread, Did (NetCall (hola_request (ustr ''EN-GB'')))),
        (WorkerThread, Did (InvokeMainThread
           \<lparr>del_result = (PStr (ustr ''hello''), PStr (ustr ''en-us'')), del_silent = True,
            del_on_success = task_on_success hola_task\<rparr>)),
        (MainThread, Called (task_on_success hola_task) (PStr (ustr ''hello''), PStr (ustr ''en-us'')))]"
    by (simp add: evals)
  from auto_translate_echo [OF other on, where room = "ustr ''lobby''" and line = "ustr ''hola''"
      and U = ascii_only and s = "?s" and respond = "?same" and t = "ustr '' hola ''"
      and dv = "PStr (ustr ''ES'')" and d = "ustr ''ES''" and tv = PNone] r4
  have "?events ?same
     = completed_trace
         \<lparr>task_text = ustr ''hola'', task_target_lang = incoming_target ?s,
           task_on_success =
             IncomingPublicEcho (ustr ''lobby'') (ustr ''ana'') (ustr ''hola'') (incoming_target ?s),
           task_silent = True\<rparr>
         (translation_request ascii_only ?s (ustr ''hola'') (incoming_target ?s)) (PStr (ustr '' hola ''), PStr (ustr ''ES''))
         (if detected_english ascii_only (PStr (ustr ''ES'')) \<or>
              strip ascii_only (ustr '' hola '') = strip ascii_only (ustr ''hola'') then []
           else [EchoPublic (ustr ''lobby'')
                   (ustr ''['' @ label_code ascii_only (PStr (ustr ''ES'')) @ [arrow] @ incoming_target ?s
                      @ ustr ''] '' @ ustr ''ana'' @ ustr '': '' @ ustr '' hola '')])"
    by blast
  then have c4: "?events ?same
     = [(MainThread, Did (StartThread hola_task)),
        (WorkerThread, Did (NetCall (hola_request (ustr ''EN-GB'')))),
        (WorkerThread, Did (InvokeMainThread
           \<lparr>del_result = (PStr (ustr '' hola ''), PStr (ustr ''ES'')), del_silent = True,
            del_on_success = task_on_success hola_task\<rparr>)),
        (MainThread, Called (task_on_success hola_task) (PStr (ustr '' hola ''), PStr (ustr ''ES'')))]"
    by (simp add: evals)
  from auto_translate_echo [OF other on, where room = "ustr ''lobby''" and line = "ustr ''hola''"
      and U = ascii_only and s = "?s" and respond = null_text_provider and tv = PNone
      and dv = "PStr (ustr ''EN'')" and t = "[]" and d = "[]"] r5
  have "?events null_text_provider
     = completed_trace
         \<lparr>task_text = ustr ''hola'', task_target_lang = incoming_target ?s,
           task_on_success =
             IncomingPublicEcho (ustr ''lobby'') (ustr ''ana'') (ustr ''hola'') (incoming_target ?s),
           task_silent = True\<rparr>
         (translation_request ascii_only ?s (ustr ''hola'') (incoming_target ?s)) (PNone, PStr (ustr ''EN'')) []"
    by blast
  then have c5: "?events null_text_provider
     = [(MainThread, Did (StartThread hola_task)),
        (WorkerThread, Did (NetCall (hola_request (ustr ''EN-GB'')))),
        (WorkerThread, Did (InvokeMainThread
           \<lparr>del_result = (PNone, PStr (ustr ''EN'')), del_silent = True,
            del_on_success = task_on_success hola_task\<rparr>)),
        (MainThread, Called (task_on_success hola_task) (PNone, PStr (ustr ''EN'')))]"
    by (simp add: evals)
  from other on c0 c1 c2 c3 c4 c5 c6 c7 show ?thesis
    by blast
qed






















end
